theory Spec2Isabelle
  imports Main "HOL-Library.Word" "HOL-Library.AList"
begin

section \<open>The shard block processor (process/block/shardblock.go)\<close>

text \<open>
  A shallow embedding of the shard processor. Go's \<open>[]byte\<close> is a list of 8-bit words,
  \<open>uint32\<close> and \<open>uint64\<close> are words of that width, an \<open>error\<close> result is
  \<open>error option\<close> (\<open>None\<close> is Go's \<open>nil\<close>), and a result paired with an error is
  a sum with the error on the left. Record fields carry a short prefix of their struct
  (\<open>mb_\<close> for \<open>block.MiniBlock\<close>, \<open>mbh_\<close> for \<open>block.MiniBlockHeader\<close>, ...) since
  several structs share field names.
\<close>

subsection \<open>Errors\<close>

text \<open>
  The errors of package \<open>process\<close> that the processor returns. \<open>ErrCollaborator\<close> stands
  for an error handed back by a collaborator (marshalizer, transaction coordinator, accounts
  adapter, ...), tagged by a number. \<open>Panic\<close> is not an error value of the code: it
  stands for a run-time panic on a \<open>nil\<close> dereference.
\<close>

datatype error =
    ErrNilHaveTimeHandler
  | ErrWrongTypeAssertion
  | ErrHeaderBodyMismatch
  | ErrTimeIsOut
  | ErrAccountStateDirty
  | ErrRootStateDoesNotMatch
  | ErrHeaderNotFinal
  | ErrNilBlockHeader
  | ErrNilTxBlockBody
  | ErrNilMetaBlockPool
  | ErrNilMetaHeadersNoncesDataPool
  | ErrNilDataPoolHolder
  | ErrNilTransactionPool
  | ErrBlockHashDoesNotMatch
  | ErrCrossShardMBWithoutConfirmationFromMeta
  | ErrNilBlockChain
  | ErrNilBlockBody
  | ErrMissingHeader
  | ErrNotarizedHdrsSliceIsNil
  | ErrCollaborator nat
  | Panic

subsection \<open>Blocks\<close>

type_synonym bytes = "8 word list"

text \<open>The miniblock kinds of package \<open>data/block\<close>.\<close>

datatype BlockType = TxBlock | SmartContractResultBlock | RewardsBlock | PeerBlock

record MiniBlock =
  mb_TxHashes :: "bytes list"
  mb_ReceiverShardID :: "32 word"
  mb_SenderShardID :: "32 word"
  mb_Type :: BlockType

record MiniBlockHeader =
  mbh_Hash :: bytes
  mbh_SenderShardID :: "32 word"
  mbh_ReceiverShardID :: "32 word"
  mbh_TxCount :: "32 word"
  mbh_Type :: BlockType

subsection \<open>checkHeaderBodyCorrelation\<close>

text \<open>
  The first loop of \<open>checkHeaderBodyCorrelation\<close>: the table from a miniblock hash to the
  header entry carrying it, filled in index order, so a later entry with the same hash
  replaces an earlier one.
\<close>

definition mbHashesFromHdr :: "MiniBlockHeader list \<Rightarrow> (bytes \<rightharpoonup> MiniBlockHeader)" where
  "mbHashesFromHdr hs = fold (\<lambda>h m. m(mbh_Hash h \<mapsto> h)) hs Map.empty"

text \<open>
  The second loop, over the body. \<open>marshal\<close> is \<open>sp.marshalizer.Marshal\<close> on a miniblock
  and \<open>hasher\<close> is \<open>sp.hasher.Compute\<close>. The comparison of \<open>TxCount\<close> is against
  \<open>uint32(len(miniBlock.TxHashes))\<close>.
\<close>

fun checkMiniBlocks ::
  "(MiniBlock \<Rightarrow> error + bytes) \<Rightarrow> (bytes \<Rightarrow> bytes) \<Rightarrow> (bytes \<rightharpoonup> MiniBlockHeader)
     \<Rightarrow> MiniBlock list \<Rightarrow> error option" where
  "checkMiniBlocks marshal hasher tbl [] = None"
| "checkMiniBlocks marshal hasher tbl (miniBlock # rest) =
     (case marshal miniBlock of
        Inl err \<Rightarrow> Some err
      | Inr mbBytes \<Rightarrow>
          (case tbl (hasher mbBytes) of
             None \<Rightarrow> Some ErrHeaderBodyMismatch
           | Some mbHdr \<Rightarrow>
               if mbh_TxCount mbHdr \<noteq> of_nat (length (mb_TxHashes miniBlock))
                 then Some ErrHeaderBodyMismatch
               else if mbh_ReceiverShardID mbHdr \<noteq> mb_ReceiverShardID miniBlock
                 then Some ErrHeaderBodyMismatch
               else if mbh_SenderShardID mbHdr \<noteq> mb_SenderShardID miniBlock
                 then Some ErrHeaderBodyMismatch
               else checkMiniBlocks marshal hasher tbl rest))"

definition checkHeaderBodyCorrelation ::
  "(MiniBlock \<Rightarrow> error + bytes) \<Rightarrow> (bytes \<Rightarrow> bytes) \<Rightarrow> MiniBlockHeader list
     \<Rightarrow> MiniBlock list \<Rightarrow> error option" where
  "checkHeaderBodyCorrelation marshal hasher miniBlockHeaders body =
     (if length miniBlockHeaders \<noteq> length body then Some ErrHeaderBodyMismatch
      else checkMiniBlocks marshal hasher (mbHashesFromHdr miniBlockHeaders) body)"

text \<open>
  The correlation as the specification words it: equal lengths, and at every index the
  header entry is the five-tuple computed from the miniblock at that index.
\<close>

definition headerEntryOf ::
  "(MiniBlock \<Rightarrow> error + bytes) \<Rightarrow> (bytes \<Rightarrow> bytes) \<Rightarrow> MiniBlock \<Rightarrow> MiniBlockHeader option" where
  "headerEntryOf marshal hasher mb =
     (case marshal mb of
        Inl err \<Rightarrow> None
      | Inr bs \<Rightarrow> Some \<lparr> mbh_Hash = hasher bs,
                        mbh_SenderShardID = mb_SenderShardID mb,
                        mbh_ReceiverShardID = mb_ReceiverShardID mb,
                        mbh_TxCount = of_nat (length (mb_TxHashes mb)),
                        mbh_Type = mb_Type mb \<rparr>)"

definition correlatedPerIndex ::
  "(MiniBlock \<Rightarrow> error + bytes) \<Rightarrow> (bytes \<Rightarrow> bytes) \<Rightarrow> MiniBlockHeader list
     \<Rightarrow> MiniBlock list \<Rightarrow> bool" where
  "correlatedPerIndex marshal hasher miniBlockHeaders body =
     (map Some miniBlockHeaders = map (headerEntryOf marshal hasher) body)"

text \<open>
  What the check compares for one miniblock: the last header entry with the miniblock's
  hash agrees with it on transaction count, receiver and sender.
\<close>

definition lastEntryMatches ::
  "(MiniBlock \<Rightarrow> error + bytes) \<Rightarrow> (bytes \<Rightarrow> bytes) \<Rightarrow> MiniBlockHeader list
     \<Rightarrow> MiniBlock \<Rightarrow> bool" where
  "lastEntryMatches marshal hasher miniBlockHeaders mb =
     (case marshal mb of
        Inl err \<Rightarrow> False
      | Inr bs \<Rightarrow>
          (case find (\<lambda>h. mbh_Hash h = hasher bs) (rev miniBlockHeaders) of
             None \<Rightarrow> False
           | Some h \<Rightarrow> mbh_TxCount h = of_nat (length (mb_TxHashes mb))
                      \<and> mbh_ReceiverShardID h = mb_ReceiverShardID mb
                      \<and> mbh_SenderShardID h = mb_SenderShardID mb))"

text \<open>A marshalizer and hasher for the examples: the fields written out, hashed by identity.\<close>

definition exampleMarshal :: "MiniBlock \<Rightarrow> error + bytes" where
  "exampleMarshal mb =
     Inr (ucast (mb_SenderShardID mb) # ucast (mb_ReceiverShardID mb)
          # (case mb_Type mb of TxBlock \<Rightarrow> 0 | SmartContractResultBlock \<Rightarrow> 1
               | RewardsBlock \<Rightarrow> 2 | PeerBlock \<Rightarrow> 3)
          # concat (mb_TxHashes mb))"

definition exampleHasher :: "bytes \<Rightarrow> bytes" where
  "exampleHasher bs = bs"

definition mbA :: MiniBlock where
  "mbA = \<lparr> mb_TxHashes = [[1]], mb_ReceiverShardID = 0, mb_SenderShardID = 1, mb_Type = TxBlock \<rparr>"

definition mbB :: MiniBlock where
  "mbB = \<lparr> mb_TxHashes = [[2], [3]], mb_ReceiverShardID = 0, mb_SenderShardID = 2,
           mb_Type = TxBlock \<rparr>"

definition entryA :: MiniBlockHeader where
  "entryA = \<lparr> mbh_Hash = [1, 0, 0, 1], mbh_SenderShardID = 1, mbh_ReceiverShardID = 0,
              mbh_TxCount = 1, mbh_Type = TxBlock \<rparr>"

definition entryB :: MiniBlockHeader where
  "entryB = \<lparr> mbh_Hash = [2, 0, 0, 2, 3], mbh_SenderShardID = 2, mbh_ReceiverShardID = 0,
              mbh_TxCount = 2, mbh_Type = TxBlock \<rparr>"

subsection \<open>Metachain headers and the header-tracking table\<close>

text \<open>
  \<open>block.MetaBlock\<close> with the fields the processor reads. Each \<open>ShardData\<close> entry of
  \<open>ShardInfo\<close> describes one notarized shard header and lists its miniblock headers.
\<close>

record ShardMiniBlockHeader =
  smbh_Hash :: bytes
  smbh_ReceiverShardId :: "32 word"
  smbh_SenderShardId :: "32 word"
  smbh_TxCount :: "32 word"

record ShardData =
  sd_ShardId :: "32 word"
  sd_HeaderHash :: bytes
  sd_ShardMiniBlockHeaders :: "ShardMiniBlockHeader list"

record MetaBlock =
  m_Nonce :: "64 word"
  m_Round :: "64 word"
  m_Epoch :: "32 word"
  m_PrevHash :: bytes
  m_PrevRandSeed :: bytes
  m_RandSeed :: bytes
  m_ShardInfo :: "ShardData list"

text \<open>
  \<open>hashAndHdr\<close>: a pool key with the header stored under it. \<open>hdrInfo\<close>: an entry of the
  tracking table; \<open>hi_hdr\<close> is \<open>None\<close> for Go's \<open>nil\<close> header (requested, not yet
  received). The table \<open>hdrHashAndInfo\<close> is a Go map; it is kept as an association list
  with distinct keys, whose order stands for the (unspecified) iteration order of the map,
  written with \<open>AList.update\<close> and read with \<open>map_of\<close>.
\<close>

record hashAndHdr =
  hah_hdr :: MetaBlock
  hah_hash :: bytes

record hdrInfo =
  hi_usedInBlock :: bool
  hi_hdr :: "MetaBlock option"

type_synonym hdrTable = "(bytes \<times> hdrInfo) list"

text \<open>
  \<open>sortHdrsForCurrentBlock\<close>: the headers of the entries whose flag equals
  \<open>usedInBlock\<close>, in ascending nonce order; an entry of that flag without a metablock
  fails the type assertion.
\<close>

fun collectHdrs :: "bool \<Rightarrow> hdrTable \<Rightarrow> error + MetaBlock list" where
  "collectHdrs usedInBlock [] = Inr []"
| "collectHdrs usedInBlock ((k, info) # rest) =
     (if hi_usedInBlock info \<noteq> usedInBlock then collectHdrs usedInBlock rest
      else (case hi_hdr info of
              None \<Rightarrow> Inl ErrWrongTypeAssertion
            | Some metaHdr \<Rightarrow>
                (case collectHdrs usedInBlock rest of
                   Inl err \<Rightarrow> Inl err
                 | Inr hdrs \<Rightarrow> Inr (metaHdr # hdrs))))"

definition sortHdrsForCurrentBlock :: "bool \<Rightarrow> hdrTable \<Rightarrow> error + MetaBlock list" where
  "sortHdrsForCurrentBlock usedInBlock tbl =
     (case collectHdrs usedInBlock tbl of
        Inl err \<Rightarrow> Inl err
      | Inr hdrs \<Rightarrow> Inr (sort_key m_Nonce hdrs))"

subsection \<open>The finality evaluator\<close>

text \<open>
  \<open>isMetaHeaderFinal\<close>. \<open>cv\<close> is the base processor's \<open>isHdrConstructionValid\<close>
  (current header, previous header), \<open>K\<close> is \<open>sp.metaBlockFinality\<close>, a Go \<open>int\<close>.
  The loop runs over \<open>sortedHdrs[startPos:]\<close> with the last verified header and the
  count of verified successors; \<open>lastVerifiedHdr.GetNonce()+1\<close> is \<open>uint64\<close> addition.
  A \<open>nil\<close> header or a \<open>nil\<close> slice is \<open>None\<close>.
\<close>

fun isMetaHeaderFinal_loop ::
  "(MetaBlock \<Rightarrow> MetaBlock \<Rightarrow> error option) \<Rightarrow> int \<Rightarrow> MetaBlock \<Rightarrow> nat
     \<Rightarrow> hashAndHdr list \<Rightarrow> bool" where
  "isMetaHeaderFinal_loop cv K lastVerifiedHdr nextBlocksVerified [] =
     (int nextBlocksVerified \<ge> K)"
| "isMetaHeaderFinal_loop cv K lastVerifiedHdr nextBlocksVerified (x # rest) =
     (if int nextBlocksVerified \<ge> K then True
      else if m_Nonce (hah_hdr x) = m_Nonce lastVerifiedHdr + 1 then
        (case cv (hah_hdr x) lastVerifiedHdr of
           Some err \<Rightarrow> isMetaHeaderFinal_loop cv K lastVerifiedHdr nextBlocksVerified rest
         | None \<Rightarrow> isMetaHeaderFinal_loop cv K (hah_hdr x) (nextBlocksVerified + 1) rest)
      else isMetaHeaderFinal_loop cv K lastVerifiedHdr nextBlocksVerified rest)"

definition isMetaHeaderFinal ::
  "(MetaBlock \<Rightarrow> MetaBlock \<Rightarrow> error option) \<Rightarrow> int \<Rightarrow> MetaBlock option
     \<Rightarrow> hashAndHdr list option \<Rightarrow> nat \<Rightarrow> bool" where
  "isMetaHeaderFinal cv K currHdr sortedHdrs startPos =
     (case currHdr of
        None \<Rightarrow> False
      | Some h \<Rightarrow>
          (case sortedHdrs of
             None \<Rightarrow> False
           | Some hdrs \<Rightarrow> isMetaHeaderFinal_loop cv K h 0 (drop startPos hdrs)))"

text \<open>
  \<open>checkMetaHdrFinality\<close>: the same scan over the tracked headers that are not used in
  the block; the loop leaves with \<open>break\<close> once \<open>K\<close> successors are verified, and the
  count decides. (The request for the next nonce, sent when the header is not final, is
  fire-and-forget and changes no state of the processor.)
\<close>

fun checkMetaHdrFinality_loop ::
  "(MetaBlock \<Rightarrow> MetaBlock \<Rightarrow> error option) \<Rightarrow> int \<Rightarrow> MetaBlock \<Rightarrow> nat
     \<Rightarrow> MetaBlock list \<Rightarrow> nat" where
  "checkMetaHdrFinality_loop cv K lastVerifiedHdr nextBlocksVerified [] = nextBlocksVerified"
| "checkMetaHdrFinality_loop cv K lastVerifiedHdr nextBlocksVerified (metaHdr # rest) =
     (if int nextBlocksVerified \<ge> K then nextBlocksVerified
      else if m_Nonce metaHdr = m_Nonce lastVerifiedHdr + 1 then
        (case cv metaHdr lastVerifiedHdr of
           Some err \<Rightarrow> checkMetaHdrFinality_loop cv K lastVerifiedHdr nextBlocksVerified rest
         | None \<Rightarrow> checkMetaHdrFinality_loop cv K metaHdr (nextBlocksVerified + 1) rest)
      else checkMetaHdrFinality_loop cv K lastVerifiedHdr nextBlocksVerified rest)"

definition checkMetaHdrFinality ::
  "(MetaBlock \<Rightarrow> MetaBlock \<Rightarrow> error option) \<Rightarrow> int \<Rightarrow> hdrTable \<Rightarrow> MetaBlock option
     \<Rightarrow> error option" where
  "checkMetaHdrFinality cv K tbl header =
     (case header of
        None \<Rightarrow> Some ErrNilBlockHeader
      | Some h \<Rightarrow>
          (case sortHdrsForCurrentBlock False tbl of
             Inl err \<Rightarrow> Some err
           | Inr finalMetaHdrs \<Rightarrow>
               if int (checkMetaHdrFinality_loop cv K h 0 finalMetaHdrs) < K
                 then Some ErrHeaderNotFinal
               else None))"

text \<open>
  The rule as the specification words it: walk the candidate successors in order, keep the
  previously verified header, and count every candidate whose nonce is the previous nonce
  plus one and which is construction-valid on the previous header; the header is final iff
  the count reaches \<open>K\<close>.
\<close>

fun verifiedSuccessors ::
  "(MetaBlock \<Rightarrow> MetaBlock \<Rightarrow> error option) \<Rightarrow> MetaBlock \<Rightarrow> MetaBlock list \<Rightarrow> nat" where
  "verifiedSuccessors cv previousVerified [] = 0"
| "verifiedSuccessors cv previousVerified (x # rest) =
     (if m_Nonce x = m_Nonce previousVerified + 1 \<and> cv x previousVerified = None
        then Suc (verifiedSuccessors cv x rest)
      else verifiedSuccessors cv previousVerified rest)"

definition finalBySpec ::
  "(MetaBlock \<Rightarrow> MetaBlock \<Rightarrow> error option) \<Rightarrow> int \<Rightarrow> MetaBlock \<Rightarrow> MetaBlock list \<Rightarrow> bool" where
  "finalBySpec cv K H successors = (K \<le> int (verifiedSuccessors cv H successors))"

text \<open>
  Modelled from the spec: \<open>isHdrConstructionValid\<close> of the base processor, which is not
  among the sources. The specification's construction validity: the previous hash is the
  hash of the previous header, the previous random seed is its random seed, and round and
  nonce grow. \<open>hashOf\<close> is the hash of a marshalled header. It serves as the instance of
  \<open>cv\<close> in the examples.
\<close>

definition constructionValid ::
  "(MetaBlock \<Rightarrow> bytes) \<Rightarrow> MetaBlock \<Rightarrow> MetaBlock \<Rightarrow> error option" where
  "constructionValid hashOf currHdr prevHdr =
     (if m_PrevHash currHdr = hashOf prevHdr \<and> m_PrevRandSeed currHdr = m_RandSeed prevHdr
         \<and> m_Round currHdr > m_Round prevHdr \<and> m_Nonce currHdr > m_Nonce prevHdr
        then None else Some ErrBlockHashDoesNotMatch)"

text \<open>Metablocks for the examples: a chain 9, 10, 11 hashed by nonce, and a stray one.\<close>

definition exampleHashOf :: "MetaBlock \<Rightarrow> bytes" where
  "exampleHashOf m = [ucast (m_Nonce m), ucast (m_Round m)]"

definition exampleMeta :: "64 word \<Rightarrow> 64 word \<Rightarrow> ShardData list \<Rightarrow> MetaBlock" where
  "exampleMeta n r info =
     \<lparr> m_Nonce = n, m_Round = r, m_Epoch = 0, m_PrevHash = [ucast (n - 1), ucast (r - 1)],
       m_PrevRandSeed = [], m_RandSeed = [], m_ShardInfo = info \<rparr>"

definition exampleTable :: hdrTable where
  "exampleTable =
     [([11, 11], \<lparr> hi_usedInBlock = False, hi_hdr = Some (exampleMeta 11 11 []) \<rparr>),
      ([10, 10], \<lparr> hi_usedInBlock = True, hi_hdr = Some (exampleMeta 10 10 []) \<rparr>)]"

subsection \<open>Shard headers and the handlers passed to the processor\<close>

record Header =
  h_Nonce :: "64 word"
  h_Round :: "64 word"
  h_Epoch :: "32 word"
  h_ShardId :: "32 word"
  h_PrevHash :: bytes
  h_PrevRandSeed :: bytes
  h_RandSeed :: bytes
  h_RootHash :: bytes
  h_MiniBlockHeaders :: "MiniBlockHeader list"
  h_MetaBlockHashes :: "bytes list"
  h_TxCount :: "32 word"

text \<open>
  A \<open>data.HeaderHandler\<close> argument is the \<open>nil\<close> interface, a \<open>*block.Header\<close> (\<open>None\<close>
  for the \<open>nil\<close> pointer) or a value of another type, which carries the answer of its
  \<open>IsInterfaceNil\<close>. A \<open>data.BodyHandler\<close> likewise: \<open>Body None\<close> is the \<open>nil\<close> slice of
  type \<open>block.Body\<close>. A \<open>data.ChainHandler\<close> is seen through the answers of the two setters
  the processor calls.
\<close>

datatype headerHandler = NilHeaderHandler | ShardHeader "Header option" | OtherHeader bool

datatype bodyHandler = NilBodyHandler | Body "MiniBlock list option" | OtherBody bool

record chainHandler =
  ch_SetCurrentBlockBody :: "error option"
  ch_SetCurrentBlockHeader :: "error option"

definition headerIsNil :: "headerHandler \<Rightarrow> bool" where
  "headerIsNil hh = (case hh of NilHeaderHandler \<Rightarrow> True | ShardHeader p \<Rightarrow> p = None
                     | OtherHeader isNil \<Rightarrow> isNil)"

definition bodyIsNil :: "bodyHandler \<Rightarrow> bool" where
  "bodyIsNil bh = (case bh of NilBodyHandler \<Rightarrow> True | Body b \<Rightarrow> b = None
                   | OtherBody isNil \<Rightarrow> isNil)"

text \<open>The miniblocks of a \<open>block.Body\<close>; the \<open>nil\<close> slice has none.\<close>

definition miniBlocksOf :: "MiniBlock list option \<Rightarrow> MiniBlock list" where
  "miniBlocksOf b = (case b of None \<Rightarrow> [] | Some mbs \<Rightarrow> mbs)"

subsection \<open>The processor's state and its collaborators\<close>

datatype UnitType =
    BlockHeaderUnit | MiniBlockUnit | MetaBlockUnit | MetaHdrNonceHashDataUnit
  | ShardHdrNonceHashDataUnit "32 word"

text \<open>
  Modelled from the spec: the accounts adapter \<open>{JournalLen, Commit, RevertToSnapshot,
  RootHash}\<close>, which is not among the sources. The journal is the log of pending
  mutations; a commit or a revert to snapshot 0 empties it, the revert going back to the
  root hash of the last commit.
\<close>

record accountsState =
  acc_journalLen :: nat
  acc_rootHash :: bytes
  acc_committedRootHash :: bytes

text \<open>
  The state the processor works on: the accounts, the notarized metachain headers of the
  base processor (tail = latest), the tracking table with its counters, the ledger of
  processed miniblocks (\<open>metablock hash \<rightharpoonup> set of miniblock hashes\<close>), the two pools
  of the pools holder (\<open>None\<close> when the holder answers \<open>nil\<close>) and the store. The
  metablock pool is an association list in the order of its \<open>Keys()\<close>; the nonces pool maps
  a nonce and a shard to a header hash.
\<close>

record shardProcessor =
  accounts :: accountsState
  notarizedHdrs :: "MetaBlock list"
  missingHdrs :: "32 word"
  missingFinalHdrs :: "32 word"
  hdrHashAndInfo :: hdrTable
  currHighestMetaHdrNonce :: "64 word"
  processedMiniBlocks :: "bytes \<rightharpoonup> bytes set"
  metaBlocksPool :: "(bytes \<times> MetaBlock) list option"
  headersNoncesPool :: "(64 word \<times> 32 word \<rightharpoonup> bytes) option"
  store :: "UnitType \<times> bytes \<rightharpoonup> bytes"

text \<open>
  The collaborators and constants, none of which is among the sources; the processor is
  modelled for every choice of them. A collaborator whose answer depends on state outside
  the processor is a function of the arguments the processor passes.
\<close>

record env =
  e_selfId :: "32 word"
  e_metachainShardId :: "32 word"
  e_metaBlockFinality :: int
  e_maxMiniBlocksInBlock :: int
  e_marshalMB :: "MiniBlock \<Rightarrow> error + bytes"
  e_marshalHdr :: "Header \<Rightarrow> error + bytes"
  e_marshalMeta :: "MetaBlock \<Rightarrow> error + bytes"
  e_unmarshalMeta :: "bytes \<Rightarrow> error + MetaBlock"
  e_hasher :: "bytes \<Rightarrow> bytes"
  e_toByteSlice :: "64 word \<Rightarrow> bytes"
  e_isHdrConstructionValid :: "MetaBlock \<Rightarrow> MetaBlock \<Rightarrow> error option"
  e_checkBlockValidity :: "headerHandler \<Rightarrow> bodyHandler \<Rightarrow> error option"
  e_setShardConsensusData :: "bytes \<Rightarrow> 64 word \<Rightarrow> 32 word \<Rightarrow> 32 word \<Rightarrow> error option"
  e_setMetaConsensusData :: "bytes \<Rightarrow> 64 word \<Rightarrow> 32 word \<Rightarrow> error option"
  e_isDataPreparedForProcessing :: "error option"
  e_processBlockTransaction ::
    "MiniBlock list \<Rightarrow> 64 word \<Rightarrow> accountsState \<Rightarrow> error option \<times> accountsState"
  e_verifyCreatedBlockTransactions :: "MiniBlock list \<Rightarrow> error option"
  e_createMbsAndProcessCrossShardTransactionsDstMe ::
    "nat \<Rightarrow> MetaBlock \<Rightarrow> bytes set option \<Rightarrow> 32 word \<Rightarrow> 32 word \<Rightarrow> 64 word
       \<Rightarrow> MiniBlock list \<times> 32 word \<times> bool"
  e_saveBlockDataToStorage :: "MiniBlock list \<Rightarrow> error option"
  e_restoreBlockDataFromStorage :: "MiniBlock list \<Rightarrow> error option"
  e_accountsCommit :: "accountsState \<Rightarrow> error option"
  e_getShardHeader :: "bytes \<Rightarrow> error + Header"
  e_highestFinalBlockNonce :: "64 word"
  e_trimNotarized :: "32 word \<Rightarrow> MetaBlock list \<Rightarrow> MetaBlock list"

subsection \<open>The processed-miniblocks ledger\<close>

definition addProcessedMiniBlock :: "bytes \<Rightarrow> bytes \<Rightarrow> shardProcessor \<Rightarrow> shardProcessor" where
  "addProcessedMiniBlock metaBlockHash miniBlockHash sp =
     (case processedMiniBlocks sp metaBlockHash of
        None \<Rightarrow> sp\<lparr> processedMiniBlocks := (processedMiniBlocks sp)(metaBlockHash \<mapsto> {miniBlockHash}) \<rparr>
      | Some miniBlocksProcessed \<Rightarrow>
          sp\<lparr> processedMiniBlocks :=
                (processedMiniBlocks sp)(metaBlockHash \<mapsto> insert miniBlockHash miniBlocksProcessed) \<rparr>)"

definition removeProcessedMiniBlock :: "bytes \<Rightarrow> shardProcessor \<Rightarrow> shardProcessor" where
  "removeProcessedMiniBlock miniBlockHash sp =
     sp\<lparr> processedMiniBlocks :=
           (\<lambda>metaBlockHash. map_option (\<lambda>miniBlocksProcessed. miniBlocksProcessed - {miniBlockHash})
                                       (processedMiniBlocks sp metaBlockHash)) \<rparr>"

definition removeAllProcessedMiniBlocks :: "bytes \<Rightarrow> shardProcessor \<Rightarrow> shardProcessor" where
  "removeAllProcessedMiniBlocks metaBlockHash sp =
     sp\<lparr> processedMiniBlocks := (processedMiniBlocks sp)(metaBlockHash := None) \<rparr>"

definition getProcessedMiniBlocksHashes :: "bytes \<Rightarrow> shardProcessor \<Rightarrow> bytes set option" where
  "getProcessedMiniBlocksHashes metaBlockHash sp = processedMiniBlocks sp metaBlockHash"

definition isMiniBlockProcessed :: "bytes \<Rightarrow> bytes \<Rightarrow> shardProcessor \<Rightarrow> bool" where
  "isMiniBlockProcessed metaBlockHash miniBlockHash sp =
     (case processedMiniBlocks sp metaBlockHash of
        None \<Rightarrow> False
      | Some miniBlocksProcessed \<Rightarrow> miniBlockHash \<in> miniBlocksProcessed)"

subsection \<open>Projections of headers and pool lookups\<close>

text \<open>
  Modelled from the spec: \<open>GetMiniBlockHeadersWithDst\<close> of \<open>block.MetaBlock\<close> and of
  \<open>block.Header\<close> and \<open>MapMiniBlockHashesToShards\<close>, which are not among the sources: the
  projection "miniblock headers with destination shard X", a cross-shard miniblock being
  one whose receiver is the shard and whose sender is not. The Go maps are keyed by hash;
  only their keys are read, so each is the list of its distinct keys.
\<close>

definition metaMiniBlockHeadersWithDst :: "MetaBlock \<Rightarrow> 32 word \<Rightarrow> bytes list" where
  "metaMiniBlockHeadersWithDst m destId =
     remdups (map smbh_Hash
       (filter (\<lambda>val. smbh_ReceiverShardId val = destId \<and> smbh_SenderShardId val \<noteq> destId)
          (concat (map sd_ShardMiniBlockHeaders (m_ShardInfo m)))))"

definition hdrMiniBlockHeadersWithDst :: "Header \<Rightarrow> 32 word \<Rightarrow> bytes list" where
  "hdrMiniBlockHeadersWithDst h destId =
     remdups (map mbh_Hash
       (filter (\<lambda>val. mbh_ReceiverShardID val = destId \<and> mbh_SenderShardID val \<noteq> destId)
          (h_MiniBlockHeaders h)))"

definition MapMiniBlockHashesToShards :: "Header \<Rightarrow> bytes list" where
  "MapMiniBlockHashesToShards h = remdups (map mbh_Hash (h_MiniBlockHeaders h))"

text \<open>
  Modelled from the spec: \<open>process.GetMetaHeaderFromPool\<close> and
  \<open>process.GetMetaHeaderFromPoolWithNonce\<close>, which are not among the sources: the metablock
  the pool holds under a hash, and the metablock whose hash the nonces pool holds for a
  nonce of the metachain; an error when there is none.
\<close>

definition getMetaHeaderFromPool :: "bytes \<Rightarrow> shardProcessor \<Rightarrow> error + MetaBlock" where
  "getMetaHeaderFromPool hash sp =
     (case metaBlocksPool sp of
        None \<Rightarrow> Inl ErrNilMetaBlockPool
      | Some pool \<Rightarrow>
          (case map_of pool hash of None \<Rightarrow> Inl ErrMissingHeader | Some hdr \<Rightarrow> Inr hdr))"

definition getMetaHeaderFromPoolWithNonce ::
  "env \<Rightarrow> 64 word \<Rightarrow> shardProcessor \<Rightarrow> error + MetaBlock \<times> bytes" where
  "getMetaHeaderFromPoolWithNonce env nonce sp =
     (case headersNoncesPool sp of
        None \<Rightarrow> Inl ErrNilMetaHeadersNoncesDataPool
      | Some noncesPool \<Rightarrow>
          (case noncesPool (nonce, e_metachainShardId env) of
             None \<Rightarrow> Inl ErrMissingHeader
           | Some hash \<Rightarrow>
               (case getMetaHeaderFromPool hash sp of
                  Inl err \<Rightarrow> Inl err
                | Inr hdr \<Rightarrow> Inr (hdr, hash))))"

text \<open>
  Modelled from the spec: \<open>getLastNotarizedHdr\<close> of the base processor, which is not among
  the sources: the tail of the notarized slice, an error when the slice is empty.
\<close>

definition getLastNotarizedHdr :: "shardProcessor \<Rightarrow> error + MetaBlock" where
  "getLastNotarizedHdr sp =
     (if notarizedHdrs sp = [] then Inl ErrNotarizedHdrsSliceIsNil
      else Inr (last (notarizedHdrs sp)))"

subsection \<open>The tracking table: reset, requests and deliveries\<close>

definition CreateBlockStarted :: "shardProcessor \<Rightarrow> shardProcessor" where
  "CreateBlockStarted sp = sp\<lparr> missingHdrs := 0, missingFinalHdrs := 0, hdrHashAndInfo := [] \<rparr>"

text \<open>
  \<open>requestFinalMissingHeaders\<close>. The loop runs \<open>i\<close> from \<open>currHighestMetaHdrNonce + 1\<close>
  while \<open>i \<le> currHighestMetaHdrNonce + uint64(metaBlockFinality)\<close> in \<open>uint64\<close>
  arithmetic; it need not end (the bound can be the largest \<open>uint64\<close>), so the loop is a
  partial function and \<open>None\<close> stands for a call that does not return. A header found in
  the pool is tracked as not used in the block; one not found is counted and requested.
\<close>

partial_function (option) requestFinalMissingHeaders_loop ::
  "env \<Rightarrow> 64 word \<Rightarrow> shardProcessor \<Rightarrow> 32 word \<Rightarrow> (shardProcessor \<times> 32 word) option" where
  "requestFinalMissingHeaders_loop env i sp requestedBlockHeaders =
     (if i \<le> currHighestMetaHdrNonce sp + word_of_int (e_metaBlockFinality env) then
        (if currHighestMetaHdrNonce sp = 0
           then requestFinalMissingHeaders_loop env (i + 1) sp requestedBlockHeaders
         else
           (case getMetaHeaderFromPoolWithNonce env i sp of
              Inl err \<Rightarrow> requestFinalMissingHeaders_loop env (i + 1) sp (requestedBlockHeaders + 1)
            | Inr (metaBlock, metaBlockHash) \<Rightarrow>
                requestFinalMissingHeaders_loop env (i + 1)
                  (sp\<lparr> hdrHashAndInfo :=
                         AList.update metaBlockHash
                           \<lparr> hi_usedInBlock = False, hi_hdr = Some metaBlock \<rparr>
                           (hdrHashAndInfo sp) \<rparr>)
                  requestedBlockHeaders))
      else Some (sp, requestedBlockHeaders))"

declare requestFinalMissingHeaders_loop.simps [code]

definition requestFinalMissingHeaders ::
  "env \<Rightarrow> shardProcessor \<Rightarrow> (shardProcessor \<times> 32 word) option" where
  "requestFinalMissingHeaders env sp =
     requestFinalMissingHeaders_loop env (currHighestMetaHdrNonce sp + 1) sp 0"

text \<open>
  \<open>computeMissingAndExistingMetaHeaders\<close>: the hashes of the header's metablocks that the
  pool does not hold, each counted in \<open>missingHdrs\<close>; the ones it holds are tracked as used.
\<close>

fun computeMissing_loop ::
  "bytes list \<Rightarrow> shardProcessor \<Rightarrow> bytes list \<Rightarrow> shardProcessor \<times> bytes list" where
  "computeMissing_loop [] sp missingHeadersHashes = (sp, missingHeadersHashes)"
| "computeMissing_loop (hash # rest) sp missingHeadersHashes =
     (case getMetaHeaderFromPool hash sp of
        Inl err \<Rightarrow>
          computeMissing_loop rest (sp\<lparr> missingHdrs := missingHdrs sp + 1 \<rparr>)
            (missingHeadersHashes @ [hash])
      | Inr hdr \<Rightarrow>
          computeMissing_loop rest
            (sp\<lparr> hdrHashAndInfo :=
                   AList.update hash \<lparr> hi_usedInBlock = True, hi_hdr = Some hdr \<rparr>
                     (hdrHashAndInfo sp),
                 currHighestMetaHdrNonce :=
                   (if m_Nonce hdr > currHighestMetaHdrNonce sp then m_Nonce hdr
                    else currHighestMetaHdrNonce sp) \<rparr>)
            missingHeadersHashes)"

definition computeMissingAndExistingMetaHeaders ::
  "Header \<Rightarrow> shardProcessor \<Rightarrow> shardProcessor \<times> bytes list" where
  "computeMissingAndExistingMetaHeaders header sp =
     computeMissing_loop (h_MetaBlockHashes header) (sp\<lparr> currHighestMetaHdrNonce := 0 \<rparr>) []"

text \<open>
  \<open>requestMetaHeaders\<close>, in its two critical sections: the computation above, then
  (\<open>requestMetaHeaders_locked\<close>) the entries for the missing hashes, without a header and
  marked used, and the request for the final headers when nothing is missing. The result
  carries \<open>requestedHdrs\<close> and \<open>requestedFinalHdrs\<close>.
\<close>

definition requestMetaHeaders_locked ::
  "env \<Rightarrow> bytes list \<Rightarrow> shardProcessor \<Rightarrow> (shardProcessor \<times> 32 word \<times> 32 word) option" where
  "requestMetaHeaders_locked env missingHeadersHashes sp =
     (let sp1 = sp\<lparr> hdrHashAndInfo :=
                      fold (\<lambda>hash tbl. AList.update hash \<lparr> hi_usedInBlock = True, hi_hdr = None \<rparr> tbl)
                        missingHeadersHashes (hdrHashAndInfo sp) \<rparr>
      in if missingHdrs sp1 = 0 then
           (case requestFinalMissingHeaders env sp1 of
              None \<Rightarrow> None
            | Some (sp2, requested) \<Rightarrow>
                Some (sp2\<lparr> missingFinalHdrs := requested \<rparr>, missingHdrs sp2, requested))
         else Some (sp1, missingHdrs sp1, missingFinalHdrs sp1))"

definition requestMetaHeaders ::
  "env \<Rightarrow> Header \<Rightarrow> shardProcessor \<Rightarrow> (shardProcessor \<times> 32 word \<times> 32 word) option" where
  "requestMetaHeaders env header sp =
     (if h_MetaBlockHashes header = [] then Some (sp, 0, 0)
      else (case computeMissingAndExistingMetaHeaders header sp of
              (sp1, missingHeadersHashes) \<Rightarrow> requestMetaHeaders_locked env missingHeadersHashes sp1))"

text \<open>
  \<open>receivedMetaBlock\<close>, the handler the metablock pool calls for a new entry. The result
  carries whether the handler sends on \<open>chRcvAllMetaHdrs\<close>. Its last part, which asks
  the transaction coordinator for the miniblocks of a metablock newer than the last
  notarized one, changes no state of the processor.
\<close>

definition fillMissingHdr :: "bytes \<Rightarrow> MetaBlock \<Rightarrow> shardProcessor \<Rightarrow> shardProcessor" where
  "fillMissingHdr metaBlockHash metaBlock sp =
     (case map_of (hdrHashAndInfo sp) metaBlockHash of
        None \<Rightarrow> sp
      | Some hdrInfoForHash \<Rightarrow>
          if hi_hdr hdrInfoForHash = None then
            sp\<lparr> hdrHashAndInfo :=
                  AList.update metaBlockHash (hdrInfoForHash\<lparr> hi_hdr := Some metaBlock \<rparr>)
                    (hdrHashAndInfo sp),
                missingHdrs := missingHdrs sp - 1,
                currHighestMetaHdrNonce :=
                  (if m_Nonce metaBlock > currHighestMetaHdrNonce sp then m_Nonce metaBlock
                   else currHighestMetaHdrNonce sp) \<rparr>
          else sp)"

definition allMissingNeededHdrsReceived :: "shardProcessor \<Rightarrow> bool" where
  "allMissingNeededHdrsReceived sp = (missingHdrs sp = 0 \<and> missingFinalHdrs sp = 0)"

definition receivedMetaBlock ::
  "env \<Rightarrow> bytes \<Rightarrow> shardProcessor \<Rightarrow> (shardProcessor \<times> bool) option" where
  "receivedMetaBlock env metaBlockHash sp =
     (case metaBlocksPool sp of
        None \<Rightarrow> Some (sp, False)
      | Some pool \<Rightarrow>
          (case map_of pool metaBlockHash of
             None \<Rightarrow> Some (sp, False)
           | Some metaBlock \<Rightarrow>
               if missingHdrs sp > 0 \<or> missingFinalHdrs sp > 0 then
                 (let sp1 = fillMissingHdr metaBlockHash metaBlock sp
                  in if missingHdrs sp1 = 0 then
                       (case requestFinalMissingHeaders env sp1 of
                          None \<Rightarrow> None
                        | Some (sp2, requested) \<Rightarrow>
                            Some (sp2\<lparr> missingFinalHdrs := requested \<rparr>,
                                  allMissingNeededHdrsReceived (sp2\<lparr> missingFinalHdrs := requested \<rparr>)))
                     else Some (sp1, allMissingNeededHdrsReceived sp1))
               else Some (sp, False)))"

subsection \<open>One cycle of the tracking table\<close>

text \<open>
  The handler \<open>receivedMetaBlock\<close> runs on other threads than the driver. Every access to
  the table and its counters is inside a critical section of \<open>mutHdrsForBlock\<close>, so a
  cycle is a sequence of such sections in the order the mutex grants them. A
  \<open>delivery\<close> is one call of the handler, with the content the pools have at that moment.
  \<open>deliverAll\<close> runs deliveries in order and counts the sends on \<open>chRcvAllMetaHdrs\<close>;
  it stops at a handler that does not return.
\<close>

record delivery =
  d_metaBlocksPool :: "(bytes \<times> MetaBlock) list option"
  d_headersNoncesPool :: "(64 word \<times> 32 word \<rightharpoonup> bytes) option"
  d_hash :: bytes

definition deliver :: "env \<Rightarrow> delivery \<Rightarrow> shardProcessor \<Rightarrow> (shardProcessor \<times> bool) option" where
  "deliver env d sp =
     receivedMetaBlock env (d_hash d)
       (sp\<lparr> metaBlocksPool := d_metaBlocksPool d, headersNoncesPool := d_headersNoncesPool d \<rparr>)"

fun deliverAll :: "env \<Rightarrow> delivery list \<Rightarrow> shardProcessor \<Rightarrow> shardProcessor option \<times> nat" where
  "deliverAll env [] sp = (Some sp, 0)"
| "deliverAll env (d # ds) sp =
     (case deliver env d sp of
        None \<Rightarrow> (None, 0)
      | Some (sp1, sent) \<Rightarrow>
          (case deliverAll env ds sp1 of (r, n) \<Rightarrow> (r, (if sent then 1 else 0) + n)))"

text \<open>
  A cycle started by \<open>ProcessBlock\<close>: \<open>CreateBlockStarted\<close>, the two critical sections
  of \<open>requestMetaHeaders\<close>, and the section after the wait that zeroes the counters,
  with deliveries before, between and after them (\<open>ds0\<close>, \<open>ds1\<close>, \<open>ds2\<close>, \<open>ds3\<close>;
  a cycle that never reaches a section has the later lists empty). The result is the
  number of sends in the cycle.
\<close>

definition processBlockCycle ::
  "env \<Rightarrow> Header \<Rightarrow> delivery list \<Rightarrow> delivery list \<Rightarrow> delivery list \<Rightarrow> delivery list
     \<Rightarrow> shardProcessor \<Rightarrow> nat" where
  "processBlockCycle env header ds0 ds1 ds2 ds3 sp =
     (case deliverAll env ds0 (CreateBlockStarted sp) of
        (None, n0) \<Rightarrow> n0
      | (Some spA, n0) \<Rightarrow>
          if h_MetaBlockHashes header = [] then n0 + snd (deliverAll env (ds1 @ ds2 @ ds3) spA)
          else
            (case computeMissingAndExistingMetaHeaders header spA of
               (spB, missingHeadersHashes) \<Rightarrow>
                 (case deliverAll env ds1 spB of
                    (None, n1) \<Rightarrow> n0 + n1
                  | (Some spC, n1) \<Rightarrow>
                      (case requestMetaHeaders_locked env missingHeadersHashes spC of
                         None \<Rightarrow> n0 + n1
                       | Some (spD, requested) \<Rightarrow>
                           (case deliverAll env ds2 spD of
                              (None, n2) \<Rightarrow> n0 + n1 + n2
                            | (Some spE, n2) \<Rightarrow>
                                n0 + n1 + n2
                                + snd (deliverAll env ds3
                                         (spE\<lparr> missingHdrs := 0, missingFinalHdrs := 0 \<rparr>)))))))"

text \<open>
  A cycle started by \<open>CreateBlockBody\<close>: \<open>CreateBlockStarted\<close>, then deliveries
  interleaved with the selector marking headers as used in the block.
\<close>

datatype buildEvent = Delivered delivery | MarkedUsed bytes MetaBlock

fun buildCycle_run :: "env \<Rightarrow> buildEvent list \<Rightarrow> shardProcessor \<Rightarrow> nat" where
  "buildCycle_run env [] sp = 0"
| "buildCycle_run env (Delivered d # evs) sp =
     (case deliver env d sp of
        None \<Rightarrow> 0
      | Some (sp1, sent) \<Rightarrow> (if sent then 1 else 0) + buildCycle_run env evs sp1)"
| "buildCycle_run env (MarkedUsed hash hdr # evs) sp =
     buildCycle_run env evs
       (sp\<lparr> hdrHashAndInfo :=
             AList.update hash \<lparr> hi_usedInBlock = True, hi_hdr = Some hdr \<rparr> (hdrHashAndInfo sp) \<rparr>)"

definition buildCycle :: "env \<Rightarrow> buildEvent list \<Rightarrow> shardProcessor \<Rightarrow> nat" where
  "buildCycle env evs sp = buildCycle_run env evs (CreateBlockStarted sp)"

text \<open>No entry of the table lacks its header.\<close>

definition noNilEntries :: "hdrTable \<Rightarrow> bool" where
  "noNilEntries tbl = (\<forall>info \<in> snd ` set tbl. hi_hdr info \<noteq> None)"

subsection \<open>The cross-shard selector\<close>

text \<open>
  \<open>getMaxMiniBlocksSpaceRemained\<close>: \<open>int32\<close> arithmetic on the bits of the \<open>uint32\<close>
  arguments; \<open>core.Min\<close> is the smaller of two \<open>int32\<close>, compared as signed numbers.
\<close>

definition getMaxMiniBlocksSpaceRemained :: "env \<Rightarrow> 32 word \<Rightarrow> 32 word \<Rightarrow> 32 word \<Rightarrow> 32 word" where
  "getMaxMiniBlocksSpaceRemained env maxItemsInBlock itemsAddedInBlock miniBlocksAddedInBlock =
     (let mbSpaceRemainedInBlock = maxItemsInBlock - itemsAddedInBlock;
          mbSpaceRemainedInCache = word_of_int (e_maxMiniBlocksInBlock env) - miniBlocksAddedInBlock
      in if mbSpaceRemainedInBlock <s mbSpaceRemainedInCache then mbSpaceRemainedInBlock
         else mbSpaceRemainedInCache)"

text \<open>
  \<open>getOrderedMetaBlocks\<close>: the metablocks of the pool with a round up to \<open>rnd\<close> and
  with round and nonce above the last notarized header's, in ascending nonce order.
\<close>

definition getOrderedMetaBlocks :: "64 word \<Rightarrow> shardProcessor \<Rightarrow> error + hashAndHdr list" where
  "getOrderedMetaBlocks rnd sp =
     (case metaBlocksPool sp of
        None \<Rightarrow> Inl ErrNilMetaBlockPool
      | Some pool \<Rightarrow>
          (case getLastNotarizedHdr sp of
             Inl err \<Rightarrow> Inl err
           | Inr lastHdr \<Rightarrow>
               Inr (sort_key (\<lambda>x. m_Nonce (hah_hdr x))
                      (map (\<lambda>(key, hdr). \<lparr> hah_hdr = hdr, hah_hash = key \<rparr>)
                         (filter (\<lambda>(key, hdr). \<not> m_Round hdr > rnd
                                     \<and> \<not> m_Round hdr \<le> m_Round lastHdr
                                     \<and> \<not> m_Nonce hdr \<le> m_Nonce lastHdr) pool)))))"

text \<open>
  The local variables of \<open>createAndProcessCrossMiniBlocksDstMe\<close> together with the
  tracking table it writes. \<open>haveTime i\<close> is the answer of \<open>haveTime()\<close> at the head of
  iteration \<open>i\<close>; the transaction coordinator is told the iteration as well.
\<close>

record selectorState =
  sel_miniBlocks :: "MiniBlock list"
  sel_txsAdded :: "32 word"
  sel_hdrsAdded :: "32 word"
  sel_lastMetaHdr :: MetaBlock
  sel_hdrHashAndInfo :: hdrTable

datatype loopCtl = Break | Continue

definition markUsed :: "bytes \<Rightarrow> MetaBlock \<Rightarrow> selectorState \<Rightarrow> selectorState" where
  "markUsed hash hdr st =
     st\<lparr> sel_hdrHashAndInfo :=
           AList.update hash \<lparr> hi_usedInBlock = True, hi_hdr = Some hdr \<rparr> (sel_hdrHashAndInfo st),
         sel_hdrsAdded := sel_hdrsAdded st + 1 \<rparr>"

definition selectorStep ::
  "env \<Rightarrow> shardProcessor \<Rightarrow> 32 word \<Rightarrow> 64 word \<Rightarrow> (nat \<Rightarrow> bool) \<Rightarrow> hashAndHdr list \<Rightarrow> nat
     \<Rightarrow> selectorState \<Rightarrow> loopCtl \<times> selectorState" where
  "selectorStep env sp maxItemsInBlock rnd haveTime orderedMetaBlocks i st =
     (if \<not> haveTime i then (Break, st)
      else if int (length (sel_miniBlocks st)) \<ge> e_maxMiniBlocksInBlock env then (Break, st)
      else
        (let itemsAddedInHeader =
               (of_nat (length (sel_hdrHashAndInfo st) + length (sel_miniBlocks st)) :: 32 word)
         in if itemsAddedInHeader \<ge> maxItemsInBlock then (Break, st)
            else
              (let hdr = hah_hdr (orderedMetaBlocks ! i);
                   hash = hah_hash (orderedMetaBlocks ! i)
               in if e_isHdrConstructionValid env hdr (sel_lastMetaHdr st) \<noteq> None
                    then (Continue, st)
                  else if \<not> isMetaHeaderFinal (e_isHdrConstructionValid env)
                              (e_metaBlockFinality env) (Some hdr) (Some orderedMetaBlocks) (i + 1)
                    then (Continue, st)
                  else if metaMiniBlockHeadersWithDst hdr (e_selfId env) = []
                    then (Continue, (markUsed hash hdr st)\<lparr> sel_lastMetaHdr := hdr \<rparr>)
                  else
                    (let itemsAddedInBody = sel_txsAdded st
                     in if itemsAddedInBody \<ge> maxItemsInBlock then (Continue, st)
                        else
                          (let maxTxSpaceRemained = maxItemsInBlock - itemsAddedInBody;
                               maxMbSpaceRemained =
                                 getMaxMiniBlocksSpaceRemained env maxItemsInBlock
                                   (itemsAddedInHeader + 1) (of_nat (length (sel_miniBlocks st)))
                           in if 0 <s maxTxSpaceRemained \<and> 0 <s maxMbSpaceRemained then
                                (case e_createMbsAndProcessCrossShardTransactionsDstMe env i hdr
                                        (getProcessedMiniBlocksHashes hash sp)
                                        maxTxSpaceRemained maxMbSpaceRemained rnd of
                                   (currMBProcessed, currTxsAdded, hdrProcessFinished) \<Rightarrow>
                                     (let st1 = st\<lparr> sel_miniBlocks := sel_miniBlocks st @ currMBProcessed,
                                                    sel_txsAdded := sel_txsAdded st + currTxsAdded \<rparr>;
                                          st2 = (if currTxsAdded > 0 then markUsed hash hdr st1 else st1)
                                      in if \<not> hdrProcessFinished then (Break, st2)
                                         else (Continue, st2\<lparr> sel_lastMetaHdr := hdr \<rparr>)))
                              else (Continue, st))))))"

function selectorLoop ::
  "env \<Rightarrow> shardProcessor \<Rightarrow> 32 word \<Rightarrow> 64 word \<Rightarrow> (nat \<Rightarrow> bool) \<Rightarrow> hashAndHdr list \<Rightarrow> nat
     \<Rightarrow> selectorState \<Rightarrow> selectorState" where
  "selectorLoop env sp maxItemsInBlock rnd haveTime orderedMetaBlocks i st =
     (if i < length orderedMetaBlocks then
        (case selectorStep env sp maxItemsInBlock rnd haveTime orderedMetaBlocks i st of
           (Break, st') \<Rightarrow> st'
         | (Continue, st') \<Rightarrow>
             selectorLoop env sp maxItemsInBlock rnd haveTime orderedMetaBlocks (i + 1) st')
      else st)"
  by pat_completeness auto
termination
  by (relation "measure (\<lambda>(env, sp, maxItemsInBlock, rnd, haveTime, orderedMetaBlocks, i, st).
                   length orderedMetaBlocks - i)") auto

declare selectorLoop.simps [simp del]

definition createAndProcessCrossMiniBlocksDstMe ::
  "env \<Rightarrow> 32 word \<Rightarrow> 64 word \<Rightarrow> (nat \<Rightarrow> bool) \<Rightarrow> shardProcessor
     \<Rightarrow> (error + MiniBlock list \<times> 32 word \<times> 32 word) \<times> shardProcessor" where
  "createAndProcessCrossMiniBlocksDstMe env maxItemsInBlock rnd haveTime sp =
     (case getOrderedMetaBlocks rnd sp of
        Inl err \<Rightarrow> (Inl err, sp)
      | Inr orderedMetaBlocks \<Rightarrow>
          (case getLastNotarizedHdr sp of
             Inl err \<Rightarrow> (Inl err, sp)
           | Inr lastMetaHdr \<Rightarrow>
               (let st = selectorLoop env sp maxItemsInBlock rnd haveTime orderedMetaBlocks 0
                           \<lparr> sel_miniBlocks = [], sel_txsAdded = 0, sel_hdrsAdded = 0,
                             sel_lastMetaHdr = lastMetaHdr,
                             sel_hdrHashAndInfo = hdrHashAndInfo sp \<rparr>
                in (Inr (sel_miniBlocks st, sel_txsAdded st, sel_hdrsAdded st),
                    sp\<lparr> hdrHashAndInfo := sel_hdrHashAndInfo st \<rparr>))))"

text \<open>
  The three checks at the head of an iteration, and the iterations the loop enters, each
  with the state it is entered in.
\<close>

definition budgetLeft :: "env \<Rightarrow> 32 word \<Rightarrow> (nat \<Rightarrow> bool) \<Rightarrow> nat \<Rightarrow> selectorState \<Rightarrow> bool" where
  "budgetLeft env maxItemsInBlock haveTime i st =
     (haveTime i
      \<and> int (length (sel_miniBlocks st)) < e_maxMiniBlocksInBlock env
      \<and> (of_nat (length (sel_hdrHashAndInfo st) + length (sel_miniBlocks st)) :: 32 word)
            < maxItemsInBlock)"

function selectorTrace ::
  "env \<Rightarrow> shardProcessor \<Rightarrow> 32 word \<Rightarrow> 64 word \<Rightarrow> (nat \<Rightarrow> bool) \<Rightarrow> hashAndHdr list \<Rightarrow> nat
     \<Rightarrow> selectorState \<Rightarrow> (nat \<times> selectorState) list" where
  "selectorTrace env sp maxItemsInBlock rnd haveTime orderedMetaBlocks i st =
     (if i < length orderedMetaBlocks then
        (i, st) #
        (case selectorStep env sp maxItemsInBlock rnd haveTime orderedMetaBlocks i st of
           (Break, st') \<Rightarrow> []
         | (Continue, st') \<Rightarrow>
             selectorTrace env sp maxItemsInBlock rnd haveTime orderedMetaBlocks (i + 1) st')
      else [])"
  by pat_completeness auto
termination
  by (relation "measure (\<lambda>(env, sp, maxItemsInBlock, rnd, haveTime, orderedMetaBlocks, i, st).
                   length orderedMetaBlocks - i)") auto

declare selectorTrace.simps [simp del]

text \<open>
  The condition under which an iteration that reached a final candidate with miniblocks
  for the shard calls the transaction coordinator: the body is not full and both
  remaining spaces are positive as \<open>int32\<close>.
\<close>

definition coordinatorInvoked :: "env \<Rightarrow> 32 word \<Rightarrow> selectorState \<Rightarrow> bool" where
  "coordinatorInvoked env maxItemsInBlock st =
     (\<not> sel_txsAdded st \<ge> maxItemsInBlock
      \<and> 0 <s maxItemsInBlock - sel_txsAdded st
      \<and> 0 <s getMaxMiniBlocksSpaceRemained env maxItemsInBlock
                (of_nat (length (sel_hdrHashAndInfo st) + length (sel_miniBlocks st)) + 1)
                (of_nat (length (sel_miniBlocks st))))"

subsection \<open>CreateBlockHeader\<close>

text \<open>
  \<open>core.CalculateHash\<close> on a miniblock: marshal, then hash. \<open>getRootHash\<close> of the base
  processor is the root hash of the accounts; \<open>RevertAccountState\<close> reverts the accounts
  to snapshot 0. Both are modelled from the spec, the base processor not being among the
  sources.
\<close>

definition calculateHashMB :: "env \<Rightarrow> MiniBlock \<Rightarrow> error + bytes" where
  "calculateHashMB env mb =
     (case e_marshalMB env mb of Inl err \<Rightarrow> Inl err | Inr bs \<Rightarrow> Inr (e_hasher env bs))"

definition getRootHash :: "shardProcessor \<Rightarrow> bytes" where
  "getRootHash sp = acc_rootHash (accounts sp)"

definition RevertAccountState :: "shardProcessor \<Rightarrow> shardProcessor" where
  "RevertAccountState sp =
     sp\<lparr> accounts := (accounts sp)\<lparr> acc_journalLen := 0,
                                      acc_rootHash := acc_committedRootHash (accounts sp) \<rparr> \<rparr>"

text \<open>
  \<open>sortHdrsHashesForCurrentBlock\<close>: the hashes of the entries whose flag equals
  \<open>usedInBlock\<close>, in ascending nonce order. It calls \<open>GetNonce\<close> on the header of each
  such entry, which panics when the entry has none.
\<close>

record nonceAndHashInfo =
  nah_hash :: bytes
  nah_nonce :: "64 word"

fun collectHdrsInfo :: "bool \<Rightarrow> hdrTable \<Rightarrow> error + nonceAndHashInfo list" where
  "collectHdrsInfo usedInBlock [] = Inr []"
| "collectHdrsInfo usedInBlock ((metaBlockHash, info) # rest) =
     (if hi_usedInBlock info \<noteq> usedInBlock then collectHdrsInfo usedInBlock rest
      else (case hi_hdr info of
              None \<Rightarrow> Inl Panic
            | Some hdr \<Rightarrow>
                (case collectHdrsInfo usedInBlock rest of
                   Inl err \<Rightarrow> Inl err
                 | Inr infos \<Rightarrow>
                     Inr (\<lparr> nah_hash = metaBlockHash, nah_nonce = m_Nonce hdr \<rparr> # infos))))"

definition sortHdrsHashesForCurrentBlock :: "bool \<Rightarrow> hdrTable \<Rightarrow> error + bytes list" where
  "sortHdrsHashesForCurrentBlock usedInBlock tbl =
     (case collectHdrsInfo usedInBlock tbl of
        Inl err \<Rightarrow> Inl err
      | Inr infos \<Rightarrow> Inr (map nah_hash (sort_key nah_nonce infos)))"

text \<open>
  The loop of \<open>CreateBlockHeader\<close> over the body: one header entry per miniblock, and the
  total number of transactions; it stops at the first miniblock whose hash fails.
\<close>

fun miniBlockHeadersOf :: "env \<Rightarrow> MiniBlock list \<Rightarrow> error + MiniBlockHeader list \<times> nat" where
  "miniBlockHeadersOf env [] = Inr ([], 0)"
| "miniBlockHeadersOf env (mb # rest) =
     (case calculateHashMB env mb of
        Inl err \<Rightarrow> Inl err
      | Inr miniBlockHash \<Rightarrow>
          (case miniBlockHeadersOf env rest of
             Inl err \<Rightarrow> Inl err
           | Inr (miniBlockHeaders, totalTxCount) \<Rightarrow>
               Inr (\<lparr> mbh_Hash = miniBlockHash,
                      mbh_SenderShardID = mb_SenderShardID mb,
                      mbh_ReceiverShardID = mb_ReceiverShardID mb,
                      mbh_TxCount = of_nat (length (mb_TxHashes mb)),
                      mbh_Type = mb_Type mb \<rparr> # miniBlockHeaders,
                    length (mb_TxHashes mb) + totalTxCount)))"

text \<open>
  \<open>CreateBlockHeader\<close>. The header starts with an empty list of miniblock headers, the
  root hash of the accounts and the own shard; every other field has Go's zero value. The
  calls to the status handler and the block-size throttler change no state of the
  processor, and neither does the deferred request for missing metablocks.
\<close>

definition CreateBlockHeader :: "env \<Rightarrow> bodyHandler \<Rightarrow> 64 word \<Rightarrow> shardProcessor \<Rightarrow> error + Header" where
  "CreateBlockHeader env bodyHandler rnd sp =
     (let header = \<lparr> h_Nonce = 0, h_Round = 0, h_Epoch = 0, h_ShardId = e_selfId env,
                      h_PrevHash = [], h_PrevRandSeed = [], h_RandSeed = [],
                      h_RootHash = getRootHash sp, h_MiniBlockHeaders = [],
                      h_MetaBlockHashes = [], h_TxCount = 0 \<rparr>
      in if bodyIsNil bodyHandler then Inr header
         else
           (case bodyHandler of
              Body b \<Rightarrow>
                (case miniBlockHeadersOf env (miniBlocksOf b) of
                   Inl err \<Rightarrow> Inl err
                 | Inr (miniBlockHeaders, totalTxCount) \<Rightarrow>
                     (case sortHdrsHashesForCurrentBlock True (hdrHashAndInfo sp) of
                        Inl err \<Rightarrow> Inl err
                      | Inr metaBlockHashes \<Rightarrow>
                          Inr (header\<lparr> h_MiniBlockHeaders := miniBlockHeaders,
                                      h_TxCount := of_nat totalTxCount,
                                      h_MetaBlockHashes := metaBlockHashes \<rparr>)))
            | _ \<Rightarrow> Inl ErrWrongTypeAssertion))"

subsection \<open>RestoreBlockIntoPools\<close>

text \<open>
  Modelled from the spec: \<open>removeLastNotarized\<close> of the base processor, which is not
  among the sources: it drops the last notarized tuple.
\<close>

definition removeLastNotarized :: "shardProcessor \<Rightarrow> shardProcessor" where
  "removeLastNotarized sp = sp\<lparr> notarizedHdrs := butlast (notarizedHdrs sp) \<rparr>"

text \<open>
  Modelled from the spec: the pools and the store, which are not among the sources, with
  \<open>Put\<close>, \<open>Merge\<close> and \<open>Remove\<close> as on a map: a put replaces the entry of its key, a
  remove deletes it, and a \<open>Get\<close> fails exactly when the key has no entry. \<open>Merge\<close> gives
  the nonce the hash of the metachain's header (\<open>GetShardID\<close> of a metablock is the
  metachain).
\<close>

definition poolPut :: "bytes \<Rightarrow> MetaBlock \<Rightarrow> shardProcessor \<Rightarrow> shardProcessor" where
  "poolPut hash metaBlock sp =
     sp\<lparr> metaBlocksPool := map_option (AList.update hash metaBlock) (metaBlocksPool sp) \<rparr>"

definition poolRemove :: "bytes \<Rightarrow> shardProcessor \<Rightarrow> shardProcessor" where
  "poolRemove hash sp = sp\<lparr> metaBlocksPool := map_option (AList.delete hash) (metaBlocksPool sp) \<rparr>"

definition noncesMerge :: "64 word \<Rightarrow> 32 word \<Rightarrow> bytes \<Rightarrow> shardProcessor \<Rightarrow> shardProcessor" where
  "noncesMerge nonce shardId hash sp =
     sp\<lparr> headersNoncesPool :=
           map_option (\<lambda>np. np((nonce, shardId) \<mapsto> hash)) (headersNoncesPool sp) \<rparr>"

definition noncesRemove :: "64 word \<Rightarrow> 32 word \<Rightarrow> shardProcessor \<Rightarrow> shardProcessor" where
  "noncesRemove nonce shardId sp =
     sp\<lparr> headersNoncesPool :=
           map_option (\<lambda>np. np((nonce, shardId) := None)) (headersNoncesPool sp) \<rparr>"

definition storePut :: "UnitType \<Rightarrow> bytes \<Rightarrow> bytes \<Rightarrow> shardProcessor \<Rightarrow> shardProcessor" where
  "storePut unit key val sp = sp\<lparr> store := (store sp)((unit, key) \<mapsto> val) \<rparr>"

definition storeRemove :: "UnitType \<Rightarrow> bytes \<Rightarrow> shardProcessor \<Rightarrow> shardProcessor" where
  "storeRemove unit key sp = sp\<lparr> store := (store sp)((unit, key) := None) \<rparr>"

text \<open>
  One iteration of the first loop of \<open>restoreMetaBlockIntoPool\<close>: a metablock that the
  store does not hold, or that does not unmarshal, is skipped; otherwise its miniblocks
  for the own shard enter the ledger, the metablock goes into the pool and the nonces
  pool, and its two entries leave the store.
\<close>

definition restoreMetaBlock :: "env \<Rightarrow> bytes \<Rightarrow> shardProcessor \<Rightarrow> shardProcessor" where
  "restoreMetaBlock env metaBlockHash sp =
     (case store sp (MetaBlockUnit, metaBlockHash) of
        None \<Rightarrow> sp
      | Some buff \<Rightarrow>
          (case e_unmarshalMeta env buff of
             Inl err \<Rightarrow> sp
           | Inr metaBlock \<Rightarrow>
               (let sp1 = fold (\<lambda>mbHash. addProcessedMiniBlock metaBlockHash mbHash)
                            (metaMiniBlockHeadersWithDst metaBlock (e_selfId env)) sp;
                    sp2 = poolPut metaBlockHash metaBlock sp1;
                    sp3 = noncesMerge (m_Nonce metaBlock) (e_metachainShardId env) metaBlockHash sp2;
                    sp4 = storeRemove MetaBlockUnit metaBlockHash sp3
                in storeRemove MetaHdrNonceHashDataUnit (e_toByteSlice env (m_Nonce metaBlock)) sp4)))"

definition restoreMetaBlockIntoPool ::
  "env \<Rightarrow> bytes list \<Rightarrow> bytes list \<Rightarrow> shardProcessor \<Rightarrow> error option \<times> shardProcessor" where
  "restoreMetaBlockIntoPool env miniBlockHashes metaBlockHashes sp =
     (if metaBlocksPool sp = None then (Some ErrNilMetaBlockPool, sp)
      else if headersNoncesPool sp = None then (Some ErrNilMetaHeadersNoncesDataPool, sp)
      else (None, fold removeProcessedMiniBlock miniBlockHashes
                    (fold (restoreMetaBlock env) metaBlockHashes sp)))"

text \<open>
  \<open>RestoreBlockIntoPools\<close>. The transaction coordinator restores the transactions of the
  body into its own pools, outside the state of the processor.
\<close>

definition RestoreBlockIntoPools ::
  "env \<Rightarrow> headerHandler \<Rightarrow> bodyHandler \<Rightarrow> shardProcessor \<Rightarrow> error option \<times> shardProcessor" where
  "RestoreBlockIntoPools env headerHandler bodyHandler sp =
     (let sp1 = removeLastNotarized sp
      in if headerIsNil headerHandler then (Some ErrNilBlockHeader, sp1)
         else if bodyIsNil bodyHandler then (Some ErrNilTxBlockBody, sp1)
         else
           (case bodyHandler of
              Body b \<Rightarrow>
                (case headerHandler of
                   ShardHeader (Some header) \<Rightarrow>
                     (case e_restoreBlockDataFromStorage env (miniBlocksOf b) of
                        Some err \<Rightarrow> (Some err, sp1)
                      | None \<Rightarrow>
                          restoreMetaBlockIntoPool env (MapMiniBlockHashesToShards header)
                            (h_MetaBlockHashes header) sp1)
                 | _ \<Rightarrow> (Some ErrWrongTypeAssertion, sp1))
            | _ \<Rightarrow> (Some ErrWrongTypeAssertion, sp1)))"

subsection \<open>ProcessBlock\<close>

text \<open>
  \<open>checkMetaHeadersValidityAndFinality\<close>: the headers used in the block, in nonce order,
  must each be construction-valid on its predecessor, starting from the last notarized
  header; the last of them must be final.
\<close>

fun checkConstructionChain :: "env \<Rightarrow> MetaBlock \<Rightarrow> MetaBlock list \<Rightarrow> error + MetaBlock" where
  "checkConstructionChain env tmpNotedHdr [] = Inr tmpNotedHdr"
| "checkConstructionChain env tmpNotedHdr (metaHdr # rest) =
     (case e_isHdrConstructionValid env metaHdr tmpNotedHdr of
        Some err \<Rightarrow> Inl err
      | None \<Rightarrow> checkConstructionChain env metaHdr rest)"

definition checkMetaHeadersValidityAndFinality :: "env \<Rightarrow> shardProcessor \<Rightarrow> error option" where
  "checkMetaHeadersValidityAndFinality env sp =
     (case getLastNotarizedHdr sp of
        Inl err \<Rightarrow> Some err
      | Inr tmpNotedHdr \<Rightarrow>
          (case sortHdrsForCurrentBlock True (hdrHashAndInfo sp) of
             Inl err \<Rightarrow> Some err
           | Inr usedMetaHdrs \<Rightarrow>
               if usedMetaHdrs = [] then None
               else
                 (case checkConstructionChain env tmpNotedHdr usedMetaHdrs of
                    Inl err \<Rightarrow> Some err
                  | Inr lastHdr \<Rightarrow>
                      checkMetaHdrFinality (e_isHdrConstructionValid env) (e_metaBlockFinality env)
                        (hdrHashAndInfo sp) (Some lastHdr))))"

text \<open>
  \<open>getAllMiniBlockDstMeFromMeta\<close>: the miniblock hashes for the own shard of every
  tracked metablock that is used in the block, has a header, and lies in the round window,
  each mapped to the hash of its metablock. \<open>verifyCrossShardMiniBlockDstMe\<close>: every
  cross-shard miniblock of the header for the own shard must be among them.
\<close>

fun collectMiniBlockDstMe ::
  "env \<Rightarrow> 64 word \<Rightarrow> MetaBlock \<Rightarrow> hdrTable \<Rightarrow> (bytes \<rightharpoonup> bytes) \<Rightarrow> (bytes \<rightharpoonup> bytes)" where
  "collectMiniBlockDstMe env rnd lastHdr [] miniBlockMetaHashes = miniBlockMetaHashes"
| "collectMiniBlockDstMe env rnd lastHdr ((metaBlockHash, info) # rest) miniBlockMetaHashes =
     (if \<not> hi_usedInBlock info then collectMiniBlockDstMe env rnd lastHdr rest miniBlockMetaHashes
      else
        (case hi_hdr info of
           None \<Rightarrow> collectMiniBlockDstMe env rnd lastHdr rest miniBlockMetaHashes
         | Some hdr \<Rightarrow>
             if m_Round hdr > rnd \<or> m_Round hdr \<le> m_Round lastHdr \<or> m_Nonce hdr \<le> m_Nonce lastHdr
               then collectMiniBlockDstMe env rnd lastHdr rest miniBlockMetaHashes
             else collectMiniBlockDstMe env rnd lastHdr rest
                    (fold (\<lambda>hash m. m(hash \<mapsto> metaBlockHash))
                       (metaMiniBlockHeadersWithDst hdr (e_selfId env)) miniBlockMetaHashes)))"

definition getAllMiniBlockDstMeFromMeta ::
  "env \<Rightarrow> 64 word \<Rightarrow> shardProcessor \<Rightarrow> error + (bytes \<rightharpoonup> bytes)" where
  "getAllMiniBlockDstMeFromMeta env rnd sp =
     (case getLastNotarizedHdr sp of
        Inl err \<Rightarrow> Inl err
      | Inr lastHdr \<Rightarrow> Inr (collectMiniBlockDstMe env rnd lastHdr (hdrHashAndInfo sp) Map.empty))"

definition verifyCrossShardMiniBlockDstMe :: "env \<Rightarrow> Header \<Rightarrow> shardProcessor \<Rightarrow> error option" where
  "verifyCrossShardMiniBlockDstMe env hdr sp =
     (case getAllMiniBlockDstMeFromMeta env (h_Round hdr) sp of
        Inl err \<Rightarrow> Some err
      | Inr miniBlockMetaHashes \<Rightarrow>
          if list_all (\<lambda>hash. miniBlockMetaHashes hash \<noteq> None)
               (hdrMiniBlockHeadersWithDst hdr (e_selfId env))
            then None
          else Some ErrCrossShardMBWithoutConfirmationFromMeta)"

text \<open>
  \<open>getProcessedMetaBlocksFromMiniBlockHashes\<close>. The loop runs over the tracked
  metablocks that are used in the block, with the miniblock hashes not yet matched
  (a Go map from index to hash, here the list of its values), the map
  \<open>processedCrossMiniBlocksHashes\<close> (a missing key reads as \<open>false\<close>) and the
  metablocks found fully processed. A metablock is fully processed when each of its
  miniblocks for the own shard is in the ledger or among the hashes not yet matched.
\<close>

fun processedMetaBlocks_loop ::
  "env \<Rightarrow> shardProcessor \<Rightarrow> hdrTable \<Rightarrow> bytes list \<Rightarrow> (bytes \<Rightarrow> bool) \<Rightarrow> MetaBlock list
     \<Rightarrow> error + MetaBlock list \<times> (bytes \<Rightarrow> bool)" where
  "processedMetaBlocks_loop env sp [] miniBlockHashes processedCross processedMetaHdrs =
     Inr (processedMetaHdrs, processedCross)"
| "processedMetaBlocks_loop env sp ((metaBlockHash, info) # rest) miniBlockHashes processedCross
       processedMetaHdrs =
     (if \<not> hi_usedInBlock info
        then processedMetaBlocks_loop env sp rest miniBlockHashes processedCross processedMetaHdrs
      else
        (case hi_hdr info of
           None \<Rightarrow> Inl ErrWrongTypeAssertion
         | Some metaBlock \<Rightarrow>
             (let crossMiniBlockHashes = metaMiniBlockHeadersWithDst metaBlock (e_selfId env);
                  pc1 = fold (\<lambda>hash pc. pc(hash := isMiniBlockProcessed metaBlockHash hash sp))
                          crossMiniBlockHashes processedCross;
                  pc2 = fold (\<lambda>miniBlockHash pc.
                                if miniBlockHash \<in> set crossMiniBlockHashes
                                  then pc(miniBlockHash := True) else pc)
                          miniBlockHashes pc1;
                  remaining = filter (\<lambda>miniBlockHash. miniBlockHash \<notin> set crossMiniBlockHashes)
                                miniBlockHashes;
                  processedAll = list_all pc2 crossMiniBlockHashes
              in processedMetaBlocks_loop env sp rest remaining pc2
                   (if processedAll then processedMetaHdrs @ [metaBlock] else processedMetaHdrs))))"

definition getProcessedMetaBlocksFromMiniBlockHashes ::
  "env \<Rightarrow> bytes list \<Rightarrow> shardProcessor \<Rightarrow> error + MetaBlock list \<times> (bytes \<Rightarrow> bool)" where
  "getProcessedMetaBlocksFromMiniBlockHashes env miniBlockHashes sp =
     (case processedMetaBlocks_loop env sp (hdrHashAndInfo sp) miniBlockHashes (\<lambda>hash. False) [] of
        Inl err \<Rightarrow> Inl err
      | Inr (processedMetaHdrs, processedCross) \<Rightarrow>
          Inr (sort_key m_Nonce processedMetaHdrs, processedCross))"

text \<open>
  \<open>getProcessedMetaBlocksFromMiniBlocks\<close>: the hashes of the miniblocks not sent by the
  own shard (one whose hash cannot be computed is left out), matched as above.
\<close>

fun crossMiniBlockHashesOf :: "env \<Rightarrow> MiniBlock list \<Rightarrow> bytes list" where
  "crossMiniBlockHashesOf env [] = []"
| "crossMiniBlockHashesOf env (mb # rest) =
     (if mb_SenderShardID mb = e_selfId env then crossMiniBlockHashesOf env rest
      else (case calculateHashMB env mb of
              Inl err \<Rightarrow> crossMiniBlockHashesOf env rest
            | Inr miniBlockHash \<Rightarrow> miniBlockHash # crossMiniBlockHashesOf env rest))"

definition getProcessedMetaBlocksFromMiniBlocks ::
  "env \<Rightarrow> MiniBlock list \<Rightarrow> shardProcessor \<Rightarrow> error + MetaBlock list" where
  "getProcessedMetaBlocksFromMiniBlocks env usedMiniBlocks sp =
     (if usedMiniBlocks = [] \<or> hdrHashAndInfo sp = [] then Inr []
      else
        (case getProcessedMetaBlocksFromMiniBlockHashes env
                (crossMiniBlockHashesOf env usedMiniBlocks) sp of
           Inl err \<Rightarrow> Inl err
         | Inr (processedMetaBlocks, processedCross) \<Rightarrow> Inr processedMetaBlocks))"

fun setMetaConsensusData :: "env \<Rightarrow> MetaBlock list \<Rightarrow> error option" where
  "setMetaConsensusData env [] = None"
| "setMetaConsensusData env (metaBlock # rest) =
     (case e_setMetaConsensusData env (m_PrevRandSeed metaBlock) (m_Round metaBlock)
             (m_Epoch metaBlock) of
        Some err \<Rightarrow> Some err
      | None \<Rightarrow> setMetaConsensusData env rest)"

text \<open>
  Modelled from the spec: \<open>verifyStateRoot\<close> of the base processor, which is not among
  the sources: the root hash of the accounts matches the one given.
\<close>

definition verifyStateRoot :: "bytes \<Rightarrow> shardProcessor \<Rightarrow> bool" where
  "verifyStateRoot rootHash sp = (getRootHash sp = rootHash)"

text \<open>
  \<open>waitForMetaHdrHashes\<close> waits for a send on \<open>chRcvAllMetaHdrs\<close> or for the timer,
  whichever comes first. \<open>arrivals\<close> are the deliveries that come before the timer fires:
  the wait ends without error at the first that sends, and with \<open>ErrTimeIsOut\<close> when none
  does. \<open>None\<close> stands for a handler that does not return. After the wait the driver
  zeroes both counters, whatever the outcome.
\<close>

fun waitForMetaHdrHashes ::
  "env \<Rightarrow> delivery list \<Rightarrow> shardProcessor \<Rightarrow> (error option \<times> shardProcessor) option" where
  "waitForMetaHdrHashes env [] sp = Some (Some ErrTimeIsOut, sp)"
| "waitForMetaHdrHashes env (d # arrivals) sp =
     (case deliver env d sp of
        None \<Rightarrow> None
      | Some (sp1, sent) \<Rightarrow>
          if sent then Some (None, sp1) else waitForMetaHdrHashes env arrivals sp1)"

definition waitAndReset ::
  "env \<Rightarrow> delivery list \<Rightarrow> shardProcessor \<Rightarrow> (error option \<times> shardProcessor) option" where
  "waitAndReset env arrivals sp =
     (case waitForMetaHdrHashes env arrivals sp of
        None \<Rightarrow> None
      | Some (err, sp1) \<Rightarrow> Some (err, sp1\<lparr> missingHdrs := 0, missingFinalHdrs := 0 \<rparr>))"

text \<open>
  The deferred function of \<open>ProcessBlock\<close> and of \<open>CommitBlock\<close>: when the function
  returns an error, the accounts are reverted.
\<close>

definition deferRevert :: "error option \<times> shardProcessor \<Rightarrow> error option \<times> shardProcessor" where
  "deferRevert r = (case fst r of None \<Rightarrow> r | Some err \<Rightarrow> (Some err, RevertAccountState (snd r)))"

text \<open>
  \<open>ProcessBlock\<close>, in three parts. \<open>ProcessBlock_prepare\<close> is the function up to the
  check of the remaining time and the wait for the metablocks; it yields the header, the
  body and the state, or the error it returns with. \<open>haveTime\<close> is \<open>None\<close> for a \<open>nil\<close>
  handler, else \<open>haveTime k\<close> is the answer of the \<open>k\<close>-th call the driver makes (the
  duration in nanoseconds). \<open>ProcessBlock_check\<close> is the part up to the registration of the
  deferred revert, and \<open>ProcessBlock_apply\<close> the part after it. The metrics and the
  request sent after a hash mismatch change no state of the processor. A \<open>nil\<close> header
  that passes \<open>checkBlockValidity\<close> panics at the first call on it.
\<close>

definition ProcessBlock_prepare ::
  "env \<Rightarrow> headerHandler \<Rightarrow> bodyHandler \<Rightarrow> (nat \<Rightarrow> int) option \<Rightarrow> delivery list \<Rightarrow> shardProcessor
     \<Rightarrow> (error \<times> shardProcessor + Header \<times> MiniBlock list \<times> shardProcessor) option" where
  "ProcessBlock_prepare env headerHandler bodyHandler haveTime arrivals sp =
     (case haveTime of
        None \<Rightarrow> Some (Inl (ErrNilHaveTimeHandler, sp))
      | Some ht \<Rightarrow>
          (case e_checkBlockValidity env headerHandler bodyHandler of
             Some err \<Rightarrow>
               if err = ErrBlockHashDoesNotMatch
                  \<and> (headerHandler = NilHeaderHandler \<or> headerHandler = ShardHeader None)
                 then Some (Inl (Panic, sp))
               else Some (Inl (err, sp))
           | None \<Rightarrow>
               (case headerHandler of
                  NilHeaderHandler \<Rightarrow> Some (Inl (Panic, sp))
                | ShardHeader None \<Rightarrow> Some (Inl (Panic, sp))
                | OtherHeader isNil \<Rightarrow> Some (Inl (ErrWrongTypeAssertion, sp))
                | ShardHeader (Some header) \<Rightarrow>
                    (case bodyHandler of
                       NilBodyHandler \<Rightarrow> Some (Inl (ErrWrongTypeAssertion, sp))
                     | OtherBody isNil \<Rightarrow> Some (Inl (ErrWrongTypeAssertion, sp))
                     | Body b \<Rightarrow>
                         (case checkHeaderBodyCorrelation (e_marshalMB env) (e_hasher env)
                                 (h_MiniBlockHeaders header) (miniBlocksOf b) of
                            Some err \<Rightarrow> Some (Inl (err, sp))
                          | None \<Rightarrow>
                              (case e_setShardConsensusData env (h_PrevRandSeed header)
                                      (h_Round header) (h_Epoch header) (h_ShardId header) of
                                 Some err \<Rightarrow> Some (Inl (err, sp))
                               | None \<Rightarrow>
                                   (case requestMetaHeaders env header (CreateBlockStarted sp) of
                                      None \<Rightarrow> None
                                    | Some (sp1, requestedMetaHdrs, requestedFinalMetaHdrs) \<Rightarrow>
                                        if ht 0 < 0 then Some (Inl (ErrTimeIsOut, sp1))
                                        else
                                          (case e_isDataPreparedForProcessing env of
                                             Some err \<Rightarrow> Some (Inl (err, sp1))
                                           | None \<Rightarrow>
                                               if requestedMetaHdrs > 0 \<or> requestedFinalMetaHdrs > 0
                                               then
                                                 (case waitAndReset env arrivals sp1 of
                                                    None \<Rightarrow> None
                                                  | Some (Some err, sp2) \<Rightarrow> Some (Inl (err, sp2))
                                                  | Some (None, sp2) \<Rightarrow>
                                                      Some (Inr (header, miniBlocksOf b, sp2)))
                                               else Some (Inr (header, miniBlocksOf b, sp1))))))))))"

definition ProcessBlock_check :: "env \<Rightarrow> Header \<Rightarrow> shardProcessor \<Rightarrow> error option" where
  "ProcessBlock_check env header sp =
     (if acc_journalLen (accounts sp) \<noteq> 0 then Some ErrAccountStateDirty
      else
        (case checkMetaHeadersValidityAndFinality env sp of
           Some err \<Rightarrow> Some err
         | None \<Rightarrow> verifyCrossShardMiniBlockDstMe env header sp))"

definition ProcessBlock_apply ::
  "env \<Rightarrow> Header \<Rightarrow> MiniBlock list \<Rightarrow> shardProcessor \<Rightarrow> error option \<times> shardProcessor" where
  "ProcessBlock_apply env header body sp =
     (case getProcessedMetaBlocksFromMiniBlocks env body sp of
        Inl err \<Rightarrow> (Some err, sp)
      | Inr processedMetaHdrs \<Rightarrow>
          (case setMetaConsensusData env processedMetaHdrs of
             Some err \<Rightarrow> (Some err, sp)
           | None \<Rightarrow>
               (case e_processBlockTransaction env body (h_Round header) (accounts sp) of
                  (Some err, acc) \<Rightarrow> (Some err, sp\<lparr> accounts := acc \<rparr>)
                | (None, acc) \<Rightarrow>
                    if \<not> verifyStateRoot (h_RootHash header) (sp\<lparr> accounts := acc \<rparr>)
                      then (Some ErrRootStateDoesNotMatch, sp\<lparr> accounts := acc \<rparr>)
                    else
                      (case e_verifyCreatedBlockTransactions env body of
                         Some err \<Rightarrow> (Some err, sp\<lparr> accounts := acc \<rparr>)
                       | None \<Rightarrow> (None, sp\<lparr> accounts := acc \<rparr>)))))"

definition ProcessBlock ::
  "env \<Rightarrow> headerHandler \<Rightarrow> bodyHandler \<Rightarrow> (nat \<Rightarrow> int) option \<Rightarrow> delivery list \<Rightarrow> shardProcessor
     \<Rightarrow> (error option \<times> shardProcessor) option" where
  "ProcessBlock env headerHandler bodyHandler haveTime arrivals sp =
     (case ProcessBlock_prepare env headerHandler bodyHandler haveTime arrivals sp of
        None \<Rightarrow> None
      | Some (Inl (err, sp1)) \<Rightarrow> Some (Some err, sp1)
      | Some (Inr (header, body, sp1)) \<Rightarrow>
          (case ProcessBlock_check env header sp1 of
             Some err \<Rightarrow> Some (Some err, sp1)
           | None \<Rightarrow> Some (deferRevert (ProcessBlock_apply env header body sp1))))"

subsection \<open>Collaborators and a processor for the examples\<close>

definition exampleUnmarshalMeta :: "bytes \<Rightarrow> error + MetaBlock" where
  "exampleUnmarshalMeta bs =
     (case bs of
        [n, r] \<Rightarrow> Inr (exampleMeta (ucast n) (ucast r) [])
      | _ \<Rightarrow> Inl (ErrCollaborator 0))"

definition exampleEnv :: env where
  "exampleEnv =
     \<lparr> e_selfId = 0,
       e_metachainShardId = 0xFFFFFFFF,
       e_metaBlockFinality = 1,
       e_maxMiniBlocksInBlock = 100,
       e_marshalMB = exampleMarshal,
       e_marshalHdr = (\<lambda>h. Inr [ucast (h_Nonce h), ucast (h_Round h)]),
       e_marshalMeta = (\<lambda>m. Inr (exampleHashOf m)),
       e_unmarshalMeta = exampleUnmarshalMeta,
       e_hasher = exampleHasher,
       e_toByteSlice = (\<lambda>n. [ucast n]),
       e_isHdrConstructionValid = constructionValid exampleHashOf,
       e_checkBlockValidity = (\<lambda>hh bh. None),
       e_setShardConsensusData = (\<lambda>randomness rnd epoch shardId. None),
       e_setMetaConsensusData = (\<lambda>randomness rnd epoch. None),
       e_isDataPreparedForProcessing = None,
       e_processBlockTransaction =
         (\<lambda>body rnd acc. (None, acc\<lparr> acc_journalLen := acc_journalLen acc + length body \<rparr>)),
       e_verifyCreatedBlockTransactions = (\<lambda>body. None),
       e_createMbsAndProcessCrossShardTransactionsDstMe =
         (\<lambda>i hdr processed maxTxs maxMbs rnd. ([mbA], 1, True)),
       e_saveBlockDataToStorage = (\<lambda>body. None),
       e_restoreBlockDataFromStorage = (\<lambda>body. None),
       e_accountsCommit = (\<lambda>acc. None),
       e_getShardHeader = (\<lambda>hash. Inl ErrMissingHeader),
       e_highestFinalBlockNonce = 0,
       e_trimNotarized = (\<lambda>n hdrs. hdrs) \<rparr>"

definition exampleProcessor :: shardProcessor where
  "exampleProcessor =
     \<lparr> accounts = \<lparr> acc_journalLen = 0, acc_rootHash = [], acc_committedRootHash = [] \<rparr>,
       notarizedHdrs = [exampleMeta 8 8 [], exampleMeta 9 9 []],
       missingHdrs = 0,
       missingFinalHdrs = 0,
       hdrHashAndInfo = [],
       currHighestMetaHdrNonce = 0,
       processedMiniBlocks = Map.empty,
       metaBlocksPool = Some [([10, 10], exampleMeta 10 10 [])],
       headersNoncesPool = Some [(10, 0xFFFFFFFF) \<mapsto> [10, 10]],
       store = Map.empty \<rparr>"

definition exampleHeader :: Header where
  "exampleHeader =
     \<lparr> h_Nonce = 5, h_Round = 12, h_Epoch = 0, h_ShardId = 0, h_PrevHash = [], h_PrevRandSeed = [],
       h_RandSeed = [], h_RootHash = [], h_MiniBlockHeaders = [],
       h_MetaBlockHashes = [[10, 10], [11, 11]], h_TxCount = 0 \<rparr>"

definition examplePool :: "8 word list \<Rightarrow> (bytes \<times> MetaBlock) list option" where
  "examplePool ns = Some (map (\<lambda>n. ([n, n], exampleMeta (ucast n) (ucast n) [])) ns)"

definition exampleNoncesPool :: "8 word list \<Rightarrow> (64 word \<times> 32 word \<rightharpoonup> bytes) option" where
  "exampleNoncesPool ns = Some (map_of (map (\<lambda>n. ((ucast n, 0xFFFFFFFF), [n, n])) ns))"

definition exampleDelivery :: "8 word list \<Rightarrow> 8 word \<Rightarrow> delivery" where
  "exampleDelivery ns n =
     \<lparr> d_metaBlocksPool = examplePool ns, d_headersNoncesPool = exampleNoncesPool ns,
       d_hash = [n, n] \<rparr>"

definition exampleShardInfo :: "ShardData list" where
  "exampleShardInfo =
     [\<lparr> sd_ShardId = 1, sd_HeaderHash = [7],
        sd_ShardMiniBlockHeaders =
          [\<lparr> smbh_Hash = [1, 0, 0, 1], smbh_ReceiverShardId = 0, smbh_SenderShardId = 1,
             smbh_TxCount = 1 \<rparr>] \<rparr>]"

definition exampleOrdered :: "hashAndHdr list" where
  "exampleOrdered =
     [\<lparr> hah_hdr = exampleMeta 10 10 exampleShardInfo, hah_hash = [10, 10] \<rparr>,
      \<lparr> hah_hdr = exampleMeta 11 11 [], hah_hash = [11, 11] \<rparr>,
      \<lparr> hah_hdr = exampleMeta 12 12 [], hah_hash = [12, 12] \<rparr>]"

definition exampleSelectorState :: selectorState where
  "exampleSelectorState =
     \<lparr> sel_miniBlocks = [], sel_txsAdded = 0, sel_hdrsAdded = 0,
       sel_lastMetaHdr = exampleMeta 9 9 [], sel_hdrHashAndInfo = [] \<rparr>"

text \<open>
  A block for the examples: one miniblock from shard 1, confirmed by metablock 10, whose
  successor 11 arrives while the driver waits. \<open>exampleRequested\<close> is the processor
  after the request for the meta headers, \<open>exampleTracked\<close> after the wait.
  \<open>constantTime d\<close> is a \<open>haveTime\<close> that always answers \<open>d\<close>.
\<close>

definition exampleBlockHeader :: "bytes \<Rightarrow> Header" where
  "exampleBlockHeader root =
     \<lparr> h_Nonce = 5, h_Round = 12, h_Epoch = 0, h_ShardId = 0, h_PrevHash = [],
       h_PrevRandSeed = [], h_RandSeed = [], h_RootHash = root, h_MiniBlockHeaders = [entryA],
       h_MetaBlockHashes = [[10, 10]], h_TxCount = 1 \<rparr>"

definition exampleValidator :: shardProcessor where
  "exampleValidator =
     exampleProcessor\<lparr> metaBlocksPool := Some [([10, 10], exampleMeta 10 10 exampleShardInfo)] \<rparr>"

definition exampleArrival :: delivery where
  "exampleArrival =
     \<lparr> d_metaBlocksPool =
         Some [([10, 10], exampleMeta 10 10 exampleShardInfo), ([11, 11], exampleMeta 11 11 [])],
       d_headersNoncesPool = exampleNoncesPool [10, 11],
       d_hash = [11, 11] \<rparr>"

definition exampleTracked :: shardProcessor where
  "exampleTracked =
     exampleValidator
       \<lparr> hdrHashAndInfo :=
           [([10, 10], \<lparr> hi_usedInBlock = True,
                         hi_hdr = Some (exampleMeta 10 10 exampleShardInfo) \<rparr>),
            ([11, 11], \<lparr> hi_usedInBlock = False, hi_hdr = Some (exampleMeta 11 11 []) \<rparr>)],
         currHighestMetaHdrNonce := 10,
         metaBlocksPool := d_metaBlocksPool exampleArrival,
         headersNoncesPool := d_headersNoncesPool exampleArrival \<rparr>"


definition exampleRequested :: shardProcessor where
  "exampleRequested =
     exampleValidator
       \<lparr> hdrHashAndInfo :=
           [([10, 10], \<lparr> hi_usedInBlock = True,
                         hi_hdr = Some (exampleMeta 10 10 exampleShardInfo) \<rparr>)],
         currHighestMetaHdrNonce := 10, missingFinalHdrs := 1 \<rparr>"

definition constantTime :: "int \<Rightarrow> nat \<Rightarrow> int" where
  "constantTime d k = d"

section \<open>Properties\<close>

subsection \<open>Header/body correlation\<close>

lemma mbHashesFromHdr_snoc:
  "mbHashesFromHdr (hs @ [h]) = (mbHashesFromHdr hs)(mbh_Hash h \<mapsto> h)"
  by (simp add: mbHashesFromHdr_def)

lemma mbHashesFromHdr_find:
  "mbHashesFromHdr hs k = find (\<lambda>h. mbh_Hash h = k) (rev hs)"
proof (induction hs rule: rev_induct)
  case Nil
  show ?case by (simp add: mbHashesFromHdr_def)
next
  case (snoc h hs)
  then show ?case by (simp add: mbHashesFromHdr_snoc)
qed

lemma checkMiniBlocks_accepts:
  "checkMiniBlocks marshal hasher (mbHashesFromHdr hs) body = None
     \<longleftrightarrow> (\<forall>mb \<in> set body. lastEntryMatches marshal hasher hs mb)"
  by (induction body)
     (auto simp: lastEntryMatches_def mbHashesFromHdr_find split: sum.splits option.splits)

lemma checkMiniBlocks_errors:
  "checkMiniBlocks marshal hasher tbl body = Some e
     \<Longrightarrow> e = ErrHeaderBodyMismatch \<or> (\<exists>mb \<in> set body. marshal mb = Inl e)"
  by (induction body) (auto split: sum.splits option.splits if_splits)

text \<open>
  C1 (as amended). The correlation check accepts a header and a body exactly when the
  two have the same number of entries and, for every miniblock of the body, the last
  header entry carrying the miniblock's hash has the miniblock's transaction count
  (as \<open>uint32\<close>), receiver shard and sender shard. The entry is found by hash, not by
  index, and its type is not compared. Every other pair is rejected, with
  \<open>ErrHeaderBodyMismatch\<close> or with the marshalizer's error.
\<close>

theorem C1_correlation_check:
  "(checkHeaderBodyCorrelation marshal hasher hs body = None
      \<longleftrightarrow> length hs = length body
          \<and> (\<forall>mb \<in> set body. lastEntryMatches marshal hasher hs mb))
   \<and> (\<forall>e. checkHeaderBodyCorrelation marshal hasher hs body = Some e
          \<longrightarrow> e = ErrHeaderBodyMismatch \<or> (\<exists>mb \<in> set body. marshal mb = Inl e))"
  by (auto simp: checkHeaderBodyCorrelation_def checkMiniBlocks_accepts
           dest: checkMiniBlocks_errors)

theorem C1_correlation_check_witness:
  "length [entryA, entryB] = length [mbB, mbA]
   \<and> lastEntryMatches exampleMarshal exampleHasher [entryA, entryB] mbB
   \<and> lastEntryMatches exampleMarshal exampleHasher [entryA, entryB] mbA
   \<and> checkHeaderBodyCorrelation exampleMarshal exampleHasher [entryA, entryB] [mbB, mbA] = None"
  using C1_correlation_check [of exampleMarshal exampleHasher "[entryA, entryB]" "[mbB, mbA]"]
  by (simp add: lastEntryMatches_def exampleMarshal_def exampleHasher_def
        mbA_def mbB_def entryA_def entryB_def)

text \<open>
  The claim as stated fails: a body in the other order than the header is accepted, and so
  is a header entry whose type differs from its miniblock's.
\<close>

theorem C1_per_index_counterexample:
  "checkHeaderBodyCorrelation exampleMarshal exampleHasher [entryA, entryB] [mbB, mbA] = None
   \<and> \<not> correlatedPerIndex exampleMarshal exampleHasher [entryA, entryB] [mbB, mbA]
   \<and> checkHeaderBodyCorrelation exampleMarshal exampleHasher
        [entryA \<lparr> mbh_Type := PeerBlock \<rparr>] [mbA] = None
   \<and> \<not> correlatedPerIndex exampleMarshal exampleHasher [entryA \<lparr> mbh_Type := PeerBlock \<rparr>] [mbA]"
  by (simp add: checkHeaderBodyCorrelation_def mbHashesFromHdr_def correlatedPerIndex_def
        headerEntryOf_def exampleMarshal_def exampleHasher_def
        mbA_def mbB_def entryA_def entryB_def)

subsection \<open>Finality\<close>

lemma isMetaHeaderFinal_loop_count:
  "isMetaHeaderFinal_loop cv K lastHdr n xs
     = (K \<le> int n + int (verifiedSuccessors cv lastHdr (map hah_hdr xs)))"
  by (induction xs arbitrary: lastHdr n) (auto split: option.splits)

lemma checkMetaHdrFinality_loop_count:
  "(int (checkMetaHdrFinality_loop cv K lastHdr n xs) < K)
     = (int n + int (verifiedSuccessors cv lastHdr xs) < K)"
  by (induction xs arbitrary: lastHdr n) (auto split: option.splits)

text \<open>
  C3. For every candidate header \<open>H\<close> and every list of candidate successors (sorted or
  not), \<open>isMetaHeaderFinal\<close> declares \<open>H\<close> final if and only if the scan of the list
  from \<open>startPos\<close>, advancing the last verified header, finds at least \<open>K\<close> successors
  each with the nonce of the last verified header plus one and construction-valid on it;
  \<open>checkMetaHdrFinality\<close> applies the same rule to the tracked headers not used in the
  block and fails with \<open>ErrHeaderNotFinal\<close> otherwise. The statement holds for every
  construction-validity check \<open>cv\<close>, the specification's four conditions among them.
\<close>

theorem C3_finality_rule:
  "isMetaHeaderFinal cv K (Some H) (Some sortedHdrs) startPos
     = finalBySpec cv K H (map hah_hdr (drop startPos sortedHdrs))
   \<and> (\<forall>finalMetaHdrs. sortHdrsForCurrentBlock False tbl = Inr finalMetaHdrs \<longrightarrow>
         checkMetaHdrFinality cv K tbl (Some H)
           = (if finalBySpec cv K H finalMetaHdrs then None else Some ErrHeaderNotFinal))"
  by (auto simp: isMetaHeaderFinal_def finalBySpec_def checkMetaHdrFinality_def
        isMetaHeaderFinal_loop_count checkMetaHdrFinality_loop_count)

theorem C3_finality_rule_witness:
  "sortHdrsForCurrentBlock False exampleTable = Inr [exampleMeta 11 11 []]
   \<and> isMetaHeaderFinal (constructionValid exampleHashOf) 1 (Some (exampleMeta 10 10 []))
        (Some [\<lparr> hah_hdr = exampleMeta 10 10 [], hah_hash = [10, 10] \<rparr>,
               \<lparr> hah_hdr = exampleMeta 11 11 [], hah_hash = [11, 11] \<rparr>]) 1
   \<and> checkMetaHdrFinality (constructionValid exampleHashOf) 1 exampleTable
        (Some (exampleMeta 10 10 [])) = None
   \<and> \<not> isMetaHeaderFinal (constructionValid exampleHashOf) 2 (Some (exampleMeta 10 10 []))
        (Some [\<lparr> hah_hdr = exampleMeta 10 10 [], hah_hash = [10, 10] \<rparr>,
               \<lparr> hah_hdr = exampleMeta 11 11 [], hah_hash = [11, 11] \<rparr>]) 1"
  using C3_finality_rule [of "constructionValid exampleHashOf" 1 "exampleMeta 10 10 []"
          "[\<lparr> hah_hdr = exampleMeta 10 10 [], hah_hash = [10, 10] \<rparr>,
            \<lparr> hah_hdr = exampleMeta 11 11 [], hah_hash = [11, 11] \<rparr>]" 1 exampleTable]
        C3_finality_rule [of "constructionValid exampleHashOf" 2 "exampleMeta 10 10 []"
          "[\<lparr> hah_hdr = exampleMeta 10 10 [], hah_hash = [10, 10] \<rparr>,
            \<lparr> hah_hdr = exampleMeta 11 11 [], hah_hash = [11, 11] \<rparr>]" 1 exampleTable]
  by (simp add: finalBySpec_def constructionValid_def exampleHashOf_def exampleMeta_def
        exampleTable_def sortHdrsForCurrentBlock_def)

subsection \<open>The completion signal\<close>

lemma rf_loop_frame:
  assumes "requestFinalMissingHeaders_loop env i sp n = Some y"
  shows "missingHdrs (fst y) = missingHdrs sp \<and> missingFinalHdrs (fst y) = missingFinalHdrs sp
         \<and> currHighestMetaHdrNonce (fst y) = currHighestMetaHdrNonce sp"
  by (rule requestFinalMissingHeaders_loop.raw_induct
        [where P = "\<lambda>env i sp n y. missingHdrs (fst y) = missingHdrs sp
            \<and> missingFinalHdrs (fst y) = missingFinalHdrs sp
            \<and> currHighestMetaHdrNonce (fst y) = currHighestMetaHdrNonce sp", OF _ assms])
     (auto split: if_splits sum.splits prod.splits)

lemma requestFinalMissingHeaders_frame:
  "requestFinalMissingHeaders env sp = Some (sp', n)
     \<Longrightarrow> missingHdrs sp' = missingHdrs sp \<and> missingFinalHdrs sp' = missingFinalHdrs sp
         \<and> currHighestMetaHdrNonce sp' = currHighestMetaHdrNonce sp"
  using rf_loop_frame [of env "currHighestMetaHdrNonce sp + 1" sp 0 "(sp', n)"]
  by (simp add: requestFinalMissingHeaders_def)

lemma receivedMetaBlock_sends:
  "receivedMetaBlock env h sp = Some (sp', True)
     \<Longrightarrow> (missingHdrs sp > 0 \<or> missingFinalHdrs sp > 0)
         \<and> missingHdrs sp' = 0 \<and> missingFinalHdrs sp' = 0"
  by (auto simp: receivedMetaBlock_def allMissingNeededHdrsReceived_def Let_def
           split: option.splits if_splits prod.splits)

lemma receivedMetaBlock_idle:
  "missingHdrs sp = 0 \<Longrightarrow> missingFinalHdrs sp = 0
     \<Longrightarrow> receivedMetaBlock env h sp = Some (sp, False)"
  by (auto simp: receivedMetaBlock_def split: option.splits)

text \<open>Deliveries to an idle table (both counters zero) send nothing and leave it idle.\<close>

lemma deliverAll_idle:
  "missingHdrs sp = 0 \<Longrightarrow> missingFinalHdrs sp = 0
     \<Longrightarrow> snd (deliverAll env ds sp) = 0
         \<and> (\<forall>sp'. fst (deliverAll env ds sp) = Some sp'
               \<longrightarrow> missingHdrs sp' = 0 \<and> missingFinalHdrs sp' = 0
                   \<and> hdrHashAndInfo sp' = hdrHashAndInfo sp)"
proof (induction ds arbitrary: sp)
  case Nil
  then show ?case by simp
next
  case (Cons d ds)
  let ?sp1 = "sp\<lparr> metaBlocksPool := d_metaBlocksPool d, headersNoncesPool := d_headersNoncesPool d \<rparr>"
  have idle: "deliver env d sp = Some (?sp1, False)"
    using Cons.prems by (simp add: deliver_def receivedMetaBlock_idle)
  have "missingHdrs ?sp1 = 0" "missingFinalHdrs ?sp1 = 0"
    using Cons.prems by simp_all
  from Cons.IH [OF this] idle show ?case
    by (auto split: prod.splits)
qed

text \<open>From any table, a run of deliveries sends at most once.\<close>

lemma deliverAll_at_most_once:
  "snd (deliverAll env ds sp) \<le> 1"
proof (induction ds arbitrary: sp)
  case Nil
  then show ?case by simp
next
  case (Cons d ds)
  show ?case
  proof (cases "deliver env d sp")
    case None
    then show ?thesis by simp
  next
    case (Some r)
    obtain sp1 sent where r: "r = (sp1, sent)" by (cases r)
    show ?thesis
    proof (cases sent)
      case True
      with Some r have "missingHdrs sp1 = 0" "missingFinalHdrs sp1 = 0"
        using receivedMetaBlock_sends [of env "d_hash d" _ sp1]
        by (auto simp: deliver_def)
      then have "snd (deliverAll env ds sp1) = 0"
        using deliverAll_idle by blast
      with Some r True show ?thesis by (auto split: prod.splits)
    next
      case False
      with Some r Cons.IH [of sp1] show ?thesis by (auto split: prod.splits)
    qed
  qed
qed

lemma set_AList_update: "set (AList.update k v al) \<subseteq> insert (k, v) (set al)"
  by (induction al) auto

lemma noNilEntries_update:
  "noNilEntries tbl \<Longrightarrow> hi_hdr v \<noteq> None \<Longrightarrow> noNilEntries (AList.update k v tbl)"
  using set_AList_update [of k v tbl] by (fastforce simp: noNilEntries_def)

lemma fillMissingHdr_noNil:
  "noNilEntries (hdrHashAndInfo sp) \<Longrightarrow> fillMissingHdr h m sp = sp"
  by (auto simp: fillMissingHdr_def noNilEntries_def split: option.splits dest!: map_of_SomeD)

lemma computeMissing_loop_inv:
  "computeMissing_loop hs sp acc = (sp', missing)
     \<Longrightarrow> noNilEntries (hdrHashAndInfo sp) \<Longrightarrow> noNilEntries (hdrHashAndInfo sp') \<and> missingFinalHdrs sp' = missingFinalHdrs sp"
proof (induction hs arbitrary: sp acc)
  case Nil
  then show ?case by simp
next
  case (Cons h hs)
  then show ?case
    by (auto split: sum.splits simp: noNilEntries_update)
qed

text \<open>
  Between the two critical sections of \<open>requestMetaHeaders\<close> no entry of the table lacks
  its header, so a delivery fills nothing and sends nothing.
\<close>

lemma deliverAll_before_request:
  "noNilEntries (hdrHashAndInfo sp) \<Longrightarrow> missingFinalHdrs sp = 0
     \<Longrightarrow> snd (deliverAll env ds sp) = 0"
proof (cases "missingHdrs sp = 0")
  case True
  assume "missingFinalHdrs sp = 0"
  with True show ?thesis using deliverAll_idle by blast
next
  case False
  assume "noNilEntries (hdrHashAndInfo sp)" "missingFinalHdrs sp = 0"
  with False show ?thesis
  proof (induction ds arbitrary: sp)
    case Nil
    then show ?case by simp
  next
    case (Cons d ds)
    let ?sp1 = "sp\<lparr> metaBlocksPool := d_metaBlocksPool d, headersNoncesPool := d_headersNoncesPool d \<rparr>"
    have nn: "noNilEntries (hdrHashAndInfo ?sp1)" using Cons.prems by simp
    have "deliver env d sp = Some (?sp1, False)"
      using Cons.prems fillMissingHdr_noNil [OF nn]
      by (auto simp: deliver_def receivedMetaBlock_def allMissingNeededHdrsReceived_def Let_def
               split: option.splits)
    moreover have "snd (deliverAll env ds ?sp1) = 0"
      using Cons.IH [of ?sp1] Cons.prems by simp
    ultimately show ?case by (simp split: prod.splits)
  qed
qed

lemma processBlockCycle_at_most_once:
  "processBlockCycle env header ds0 ds1 ds2 ds3 sp \<le> 1"
proof -
  let ?s0 = "CreateBlockStarted sp"
  have z0: "missingHdrs ?s0 = 0" "missingFinalHdrs ?s0 = 0" "hdrHashAndInfo ?s0 = []"
    by (simp_all add: CreateBlockStarted_def)
  have n0: "snd (deliverAll env ds0 ?s0) = 0"
    and a0: "\<And>spA. fst (deliverAll env ds0 ?s0) = Some spA
               \<Longrightarrow> missingHdrs spA = 0 \<and> missingFinalHdrs spA = 0 \<and> hdrHashAndInfo spA = []"
    using deliverAll_idle [OF z0(1) z0(2), of env ds0] z0(3) by auto
  show ?thesis
  proof (cases "deliverAll env ds0 ?s0")
    case (Pair r n0')
    with n0 have n0': "n0' = 0" by simp
    show ?thesis
    proof (cases r)
      case None
      with Pair n0' show ?thesis by (simp add: processBlockCycle_def)
    next
      case (Some spA)
      with Pair a0 [of spA] have A: "missingHdrs spA = 0" "missingFinalHdrs spA = 0"
        "hdrHashAndInfo spA = []" by auto
      show ?thesis
      proof (cases "h_MetaBlockHashes header = []")
        case True
        have "snd (deliverAll env (ds1 @ ds2 @ ds3) spA) = 0"
          using deliverAll_idle [OF A(1) A(2)] by blast
        with Pair Some n0' True show ?thesis by (simp add: processBlockCycle_def)
      next
        case False
        obtain spB missing where B: "computeMissingAndExistingMetaHeaders header spA = (spB, missing)"
          by (cases "computeMissingAndExistingMetaHeaders header spA")
        have B': "noNilEntries (hdrHashAndInfo spB)" "missingFinalHdrs spB = 0"
          using computeMissing_loop_inv [of "h_MetaBlockHashes header"
                  "spA\<lparr> currHighestMetaHdrNonce := 0 \<rparr>" "[]" spB missing] B A
          by (simp_all add: computeMissingAndExistingMetaHeaders_def noNilEntries_def)
        have n1: "snd (deliverAll env ds1 spB) = 0"
          using deliverAll_before_request [OF B'] .
        show ?thesis
        proof (cases "deliverAll env ds1 spB")
          case (Pair r1 n1')
          with n1 have n1': "n1' = 0" by simp
          note P1 = Pair
          show ?thesis
          proof (cases r1)
            case None
            with \<open>deliverAll env ds0 ?s0 = (r, n0')\<close> Some n0' False B P1 n1'
            show ?thesis by (simp add: processBlockCycle_def)
          next
            case (Some spC)
            note C = Some
            show ?thesis
            proof (cases "requestMetaHeaders_locked env missing spC")
              case None
              with \<open>deliverAll env ds0 ?s0 = (r, n0')\<close> \<open>r = Some spA\<close> n0' False B P1 n1' C
              show ?thesis by (simp add: processBlockCycle_def)
            next
              case (Some rd)
              obtain spD rq where rd: "rd = (spD, rq)" by (cases rd)
              have n2: "snd (deliverAll env ds2 spD) \<le> 1" by (rule deliverAll_at_most_once)
              show ?thesis
              proof (cases "deliverAll env ds2 spD")
                case (Pair r2 n2')
                with n2 have n2': "n2' \<le> 1" by simp
                show ?thesis
                proof (cases r2)
                  case None
                  with \<open>deliverAll env ds0 ?s0 = (r, n0')\<close> \<open>r = Some spA\<close> n0' False B P1 n1' C
                       Some rd Pair n2'
                  show ?thesis by (simp add: processBlockCycle_def)
                next
                  case (Some spE)
                  have "snd (deliverAll env ds3 (spE\<lparr> missingHdrs := 0, missingFinalHdrs := 0 \<rparr>)) = 0"
                    using deliverAll_idle [of "spE\<lparr> missingHdrs := 0, missingFinalHdrs := 0 \<rparr>" env ds3]
                    by simp
                  with \<open>deliverAll env ds0 ?s0 = (r, n0')\<close> \<open>r = Some spA\<close> n0' False B P1 n1' C
                       \<open>requestMetaHeaders_locked env missing spC = Some rd\<close> rd Pair n2' Some
                  show ?thesis by (simp add: processBlockCycle_def)
                qed
              qed
            qed
          qed
        qed
      qed
    qed
  qed
qed

lemma buildCycle_run_idle:
  "missingHdrs sp = 0 \<Longrightarrow> missingFinalHdrs sp = 0 \<Longrightarrow> buildCycle_run env evs sp = 0"
proof (induction evs arbitrary: sp)
  case Nil
  then show ?case by simp
next
  case (Cons ev evs)
  show ?case
  proof (cases ev)
    case (Delivered d)
    let ?sp1 = "sp\<lparr> metaBlocksPool := d_metaBlocksPool d, headersNoncesPool := d_headersNoncesPool d \<rparr>"
    have "deliver env d sp = Some (?sp1, False)"
      using Cons.prems by (simp add: deliver_def receivedMetaBlock_idle)
    with Delivered Cons.IH [of ?sp1] Cons.prems show ?thesis by simp
  next
    case (MarkedUsed h m)
    with Cons.IH Cons.prems show ?thesis by simp
  qed
qed


text \<open>
  C9. Between two calls of \<open>CreateBlockStarted\<close> the handler sends on
  \<open>chRcvAllMetaHdrs\<close> at most once, in a cycle of \<open>ProcessBlock\<close>, and never in a
  cycle of \<open>CreateBlockBody\<close>. A call of the handler sends only when a counter was
  positive before it and both are zero after it, and a call that finds both counters zero
  sends nothing and changes nothing.
\<close>

theorem C9_signal_at_most_once:
  "processBlockCycle env header ds0 ds1 ds2 ds3 sp \<le> 1
   \<and> buildCycle env evs sp = 0
   \<and> (\<forall>h sp'. receivedMetaBlock env h sp = Some (sp', True)
         \<longrightarrow> (missingHdrs sp > 0 \<or> missingFinalHdrs sp > 0)
             \<and> missingHdrs sp' = 0 \<and> missingFinalHdrs sp' = 0)
   \<and> (missingHdrs sp = 0 \<and> missingFinalHdrs sp = 0
         \<longrightarrow> (\<forall>h. receivedMetaBlock env h sp = Some (sp, False)))"
  using processBlockCycle_at_most_once [of env header ds0 ds1 ds2 ds3 sp]
        buildCycle_run_idle [of "CreateBlockStarted sp" env evs]
        receivedMetaBlock_sends [of env _ sp] receivedMetaBlock_idle [of sp env]
  by (simp add: buildCycle_def CreateBlockStarted_def)

theorem C9_signal_at_most_once_witness:
  "processBlockCycle exampleEnv exampleHeader [exampleDelivery [10] 10] []
     [exampleDelivery [10, 11] 11, exampleDelivery [10, 11, 12] 12]
     [exampleDelivery [10, 11, 12] 10] exampleProcessor = 1
   \<and> buildCycle exampleEnv
        [Delivered (exampleDelivery [10] 10), MarkedUsed [10, 10] (exampleMeta 10 10 []),
         Delivered (exampleDelivery [10, 11] 11)] exampleProcessor = 0
   \<and> missingHdrs exampleProcessor = 0 \<and> missingFinalHdrs exampleProcessor = 0
   \<and> receivedMetaBlock exampleEnv [10, 10] exampleProcessor = Some (exampleProcessor, False)"
  using C9_signal_at_most_once [of exampleEnv exampleHeader "[exampleDelivery [10] 10]" "[]"
          "[exampleDelivery [10, 11] 11, exampleDelivery [10, 11, 12] 12]"
          "[exampleDelivery [10, 11, 12] 10]" exampleProcessor
          "[Delivered (exampleDelivery [10] 10), MarkedUsed [10, 10] (exampleMeta 10 10 []),
            Delivered (exampleDelivery [10, 11] 11)]"]
  by (simp add: processBlockCycle_def CreateBlockStarted_def deliver_def receivedMetaBlock_def
        computeMissingAndExistingMetaHeaders_def getMetaHeaderFromPool_def
        requestMetaHeaders_locked_def fillMissingHdr_def allMissingNeededHdrsReceived_def
        requestFinalMissingHeaders_def requestFinalMissingHeaders_loop.simps
        getMetaHeaderFromPoolWithNonce_def exampleEnv_def exampleProcessor_def
        exampleHeader_def exampleDelivery_def exampleMeta_def exampleHashOf_def
        examplePool_def exampleNoncesPool_def)

subsection \<open>The cross-shard selector\<close>

lemma selectorStep_stops:
  "\<not> budgetLeft env maxItemsInBlock haveTime i st
     \<Longrightarrow> selectorStep env sp maxItemsInBlock rnd haveTime oms i st = (Break, st)"
  by (auto simp: budgetLeft_def selectorStep_def Let_def not_less)

lemma selectorTrace_budget:
  "Suc k < length (selectorTrace env sp maxItemsInBlock rnd haveTime oms i st)
     \<Longrightarrow> (case selectorTrace env sp maxItemsInBlock rnd haveTime oms i st ! k of
           (j, s) \<Rightarrow> budgetLeft env maxItemsInBlock haveTime j s)"
proof (induction env sp maxItemsInBlock rnd haveTime oms i st arbitrary: k
       rule: selectorTrace.induct)
  case (1 env sp maxItemsInBlock rnd haveTime oms i st)
  show ?case
  proof (cases "i < length oms")
    case False
    with "1.prems" show ?thesis by (simp add: selectorTrace.simps)
  next
    case True
    obtain ctl st' where step: "selectorStep env sp maxItemsInBlock rnd haveTime oms i st = (ctl, st')"
      by (cases "selectorStep env sp maxItemsInBlock rnd haveTime oms i st")
    show ?thesis
    proof (cases ctl)
      case Break
      with True step "1.prems" show ?thesis
        by (simp add: selectorTrace.simps [of env sp maxItemsInBlock rnd haveTime oms i st])
    next
      case Continue
      have tr: "selectorTrace env sp maxItemsInBlock rnd haveTime oms i st
                  = (i, st) # selectorTrace env sp maxItemsInBlock rnd haveTime oms (i + 1) st'"
        using True step Continue
        by (simp add: selectorTrace.simps [of env sp maxItemsInBlock rnd haveTime oms i st])
      show ?thesis
      proof (cases k)
        case 0
        have "budgetLeft env maxItemsInBlock haveTime i st"
          using selectorStep_stops [of env maxItemsInBlock haveTime i st sp rnd oms] step Continue
          by auto
        with tr 0 show ?thesis by simp
      next
        case (Suc k')
        with "1.prems" tr
        have "Suc k' < length (selectorTrace env sp maxItemsInBlock rnd haveTime oms (i + 1) st')"
          by simp
        from "1.IH" [OF True step [symmetric] Continue this] tr Suc show ?thesis by simp
      qed
    qed
  qed
qed


lemma budgetLeft_nat:
  assumes "length (sel_hdrHashAndInfo st) + length (sel_miniBlocks st) < 2 ^ 32"
  shows "budgetLeft env maxItemsInBlock haveTime i st
           = (haveTime i \<and> int (length (sel_miniBlocks st)) < e_maxMiniBlocksInBlock env
              \<and> length (sel_hdrHashAndInfo st) + length (sel_miniBlocks st) < unat maxItemsInBlock)"
proof -
  have "unat (of_nat n :: 32 word) = n" if "n < 2 ^ 32" for n :: nat
    using that by (simp add: unat_of_nat)
  from this [OF assms] show ?thesis
    unfolding budgetLeft_def word_less_nat_alt by simp
qed

text \<open>
  C5. In the loop of \<open>createAndProcessCrossMiniBlocksDstMe\<close>, an iteration that finds
  \<open>haveTime()\<close> false, or \<open>MaxMiniBlocksInBlock\<close> or more miniblocks collected, or
  \<open>maxItems\<close> or more header-side items (tracked headers plus collected miniblocks, as
  \<open>uint32\<close>), ends the loop there: the state is returned as it is and no later
  candidate is entered. Hence every iteration that is followed by another one began with
  all three budgets left. The last part reads the \<open>uint32\<close> comparison on numbers, for
  fewer than \<open>2^32\<close> items.
\<close>

theorem C5_selector_stops:
  "(i < length oms \<and> \<not> budgetLeft env maxItemsInBlock haveTime i st
      \<longrightarrow> selectorLoop env sp maxItemsInBlock rnd haveTime oms i st = st
          \<and> selectorTrace env sp maxItemsInBlock rnd haveTime oms i st = [(i, st)])
   \<and> (\<forall>k. Suc k < length (selectorTrace env sp maxItemsInBlock rnd haveTime oms i st)
         \<longrightarrow> (case selectorTrace env sp maxItemsInBlock rnd haveTime oms i st ! k of
                (j, s) \<Rightarrow> budgetLeft env maxItemsInBlock haveTime j s))
   \<and> (length (sel_hdrHashAndInfo st) + length (sel_miniBlocks st) < 2 ^ 32
         \<longrightarrow> budgetLeft env maxItemsInBlock haveTime i st
             = (haveTime i \<and> int (length (sel_miniBlocks st)) < e_maxMiniBlocksInBlock env
                \<and> length (sel_hdrHashAndInfo st) + length (sel_miniBlocks st)
                     < unat maxItemsInBlock))"
  using selectorStep_stops [of env maxItemsInBlock haveTime i st sp rnd oms]
        selectorTrace_budget [of _ env sp maxItemsInBlock rnd haveTime oms i st]
        budgetLeft_nat [of st env maxItemsInBlock haveTime i]
  by (simp add: selectorLoop.simps [of env sp maxItemsInBlock rnd haveTime oms i st]
        selectorTrace.simps [of env sp maxItemsInBlock rnd haveTime oms i st])

theorem C5_selector_stops_witness:
  "1 < length exampleOrdered
   \<and> \<not> budgetLeft exampleEnv 1000 (\<lambda>i. i < 1) 1 exampleSelectorState
   \<and> selectorLoop exampleEnv exampleProcessor 1000 12 (\<lambda>i. i < 1) exampleOrdered 1
        exampleSelectorState = exampleSelectorState
   \<and> selectorTrace exampleEnv exampleProcessor 1000 12 (\<lambda>i. i < 1) exampleOrdered 1
        exampleSelectorState = [(1, exampleSelectorState)]
   \<and> budgetLeft exampleEnv 1000 (\<lambda>i. i < 1) 0 exampleSelectorState
   \<and> length (selectorTrace exampleEnv exampleProcessor 1000 12 (\<lambda>i. i < 1) exampleOrdered 0
        exampleSelectorState) = 2"
  using C5_selector_stops [of 1 exampleOrdered exampleEnv 1000 "\<lambda>i. i < 1" exampleSelectorState
          exampleProcessor 12]
        C5_selector_stops [of 0 exampleOrdered exampleEnv 1000 "\<lambda>i. i < 1" exampleSelectorState
          exampleProcessor 12]
  by (simp add: budgetLeft_def selectorTrace.simps selectorLoop.simps selectorStep_def
        isMetaHeaderFinal_def Let_def
        constructionValid_def metaMiniBlockHeadersWithDst_def getMaxMiniBlocksSpaceRemained_def
        getProcessedMiniBlocksHashes_def markUsed_def word_sless_alt exampleEnv_def exampleProcessor_def exampleMeta_def exampleHashOf_def
        exampleOrdered_def exampleSelectorState_def exampleShardInfo_def)

text \<open>
  C6. For a candidate \<open>m\<close> that the selector reaches with budget left and finds
  construction-valid on the last header and final: if \<open>m\<close> has no miniblock for the own
  shard, \<open>m\<close> is recorded in the table as used in the block, the count of headers grows
  and the scan goes on with \<open>lastMetaHdr = m\<close>; if it has some and the transaction
  coordinator is called, the table afterwards is the table before with \<open>m\<close> recorded as
  used exactly when the coordinator reports \<open>currTxsAdded > 0\<close> (so, \<open>m\<close> not being
  tracked before, \<open>m\<close> is recorded as used iff \<open>currTxsAdded > 0\<close>), and the scan goes
  on iff the coordinator finished the header.
\<close>

theorem C6_candidate_recording:
  assumes "i < length oms"
    and "budgetLeft env maxItemsInBlock haveTime i st"
    and "e_isHdrConstructionValid env (hah_hdr (oms ! i)) (sel_lastMetaHdr st) = None"
    and "isMetaHeaderFinal (e_isHdrConstructionValid env) (e_metaBlockFinality env)
           (Some (hah_hdr (oms ! i))) (Some oms) (i + 1)"
  shows
    "(metaMiniBlockHeadersWithDst (hah_hdr (oms ! i)) (e_selfId env) = []
        \<longrightarrow> selectorStep env sp maxItemsInBlock rnd haveTime oms i st
              = (Continue, (markUsed (hah_hash (oms ! i)) (hah_hdr (oms ! i)) st)
                             \<lparr> sel_lastMetaHdr := hah_hdr (oms ! i) \<rparr>))
     \<and> (metaMiniBlockHeadersWithDst (hah_hdr (oms ! i)) (e_selfId env) \<noteq> []
          \<and> coordinatorInvoked env maxItemsInBlock st
        \<longrightarrow> (case e_createMbsAndProcessCrossShardTransactionsDstMe env i (hah_hdr (oms ! i))
                     (getProcessedMiniBlocksHashes (hah_hash (oms ! i)) sp)
                     (maxItemsInBlock - sel_txsAdded st)
                     (getMaxMiniBlocksSpaceRemained env maxItemsInBlock
                        (of_nat (length (sel_hdrHashAndInfo st) + length (sel_miniBlocks st)) + 1)
                        (of_nat (length (sel_miniBlocks st)))) rnd of
                (currMBProcessed, currTxsAdded, hdrProcessFinished) \<Rightarrow>
                  sel_hdrHashAndInfo (snd (selectorStep env sp maxItemsInBlock rnd haveTime oms i st))
                    = (if currTxsAdded > 0
                         then AList.update (hah_hash (oms ! i))
                                \<lparr> hi_usedInBlock = True, hi_hdr = Some (hah_hdr (oms ! i)) \<rparr>
                                (sel_hdrHashAndInfo st)
                       else sel_hdrHashAndInfo st)
                  \<and> (map_of (sel_hdrHashAndInfo st) (hah_hash (oms ! i)) = None
                       \<longrightarrow> (map_of (sel_hdrHashAndInfo
                                      (snd (selectorStep env sp maxItemsInBlock rnd haveTime oms i st)))
                               (hah_hash (oms ! i))
                              = Some \<lparr> hi_usedInBlock = True, hi_hdr = Some (hah_hdr (oms ! i)) \<rparr>)
                            = (currTxsAdded > 0))
                  \<and> fst (selectorStep env sp maxItemsInBlock rnd haveTime oms i st)
                      = (if hdrProcessFinished then Continue else Break)))"
  using assms
  by (auto simp: selectorStep_def budgetLeft_def coordinatorInvoked_def Let_def markUsed_def
        update_conv' not_le split: prod.splits)

theorem C6_candidate_recording_witness:
  "0 < length exampleOrdered
   \<and> budgetLeft exampleEnv 1000 (\<lambda>i. True) 0 exampleSelectorState
   \<and> e_isHdrConstructionValid exampleEnv (hah_hdr (exampleOrdered ! 0))
        (sel_lastMetaHdr exampleSelectorState) = None
   \<and> isMetaHeaderFinal (e_isHdrConstructionValid exampleEnv) (e_metaBlockFinality exampleEnv)
        (Some (hah_hdr (exampleOrdered ! 0))) (Some exampleOrdered) (0 + 1)
   \<and> metaMiniBlockHeadersWithDst (hah_hdr (exampleOrdered ! 0)) (e_selfId exampleEnv) \<noteq> []
   \<and> coordinatorInvoked exampleEnv 1000 exampleSelectorState
   \<and> sel_hdrHashAndInfo
        (snd (selectorStep exampleEnv exampleProcessor 1000 12 (\<lambda>i. True) exampleOrdered 0
                exampleSelectorState))
      = [([10, 10], \<lparr> hi_usedInBlock = True, hi_hdr = Some (exampleMeta 10 10 exampleShardInfo) \<rparr>)]
   \<and> selectorStep exampleEnv exampleProcessor 1000 12 (\<lambda>i. True)
        (tl exampleOrdered) 0 (exampleSelectorState \<lparr> sel_lastMetaHdr := exampleMeta 10 10 [] \<rparr>)
      = (Continue,
         \<lparr> sel_miniBlocks = [], sel_txsAdded = 0, sel_hdrsAdded = 1,
           sel_lastMetaHdr = exampleMeta 11 11 [],
           sel_hdrHashAndInfo =
             [([11, 11], \<lparr> hi_usedInBlock = True, hi_hdr = Some (exampleMeta 11 11 []) \<rparr>)] \<rparr>)"
  using C6_candidate_recording [of 0 exampleOrdered exampleEnv 1000 "\<lambda>i. True"
          exampleSelectorState exampleProcessor 12]
        C6_candidate_recording [of 0 "tl exampleOrdered" exampleEnv 1000 "\<lambda>i. True"
          "exampleSelectorState \<lparr> sel_lastMetaHdr := exampleMeta 10 10 [] \<rparr>" exampleProcessor 12]
  by (simp add: budgetLeft_def coordinatorInvoked_def isMetaHeaderFinal_def selectorStep_def
        Let_def constructionValid_def metaMiniBlockHeadersWithDst_def getMaxMiniBlocksSpaceRemained_def
        getProcessedMiniBlocksHashes_def markUsed_def word_sless_alt exampleEnv_def exampleProcessor_def exampleMeta_def exampleHashOf_def
        exampleOrdered_def exampleSelectorState_def exampleShardInfo_def)

subsection \<open>ProcessBlock: the accounts before the deferred revert\<close>

lemma rf_loop_accounts:
  assumes "requestFinalMissingHeaders_loop env i sp n = Some y"
  shows "accounts (fst y) = accounts sp"
  by (rule requestFinalMissingHeaders_loop.raw_induct
        [where P = "\<lambda>env i sp n y. accounts (fst y) = accounts sp", OF _ assms])
     (auto split: if_splits sum.splits prod.splits)

lemma requestFinalMissingHeaders_accounts:
  "requestFinalMissingHeaders env sp = Some (sp', n) \<Longrightarrow> accounts sp' = accounts sp"
  using rf_loop_accounts [of env "currHighestMetaHdrNonce sp + 1" sp 0 "(sp', n)"]
  by (simp add: requestFinalMissingHeaders_def)

lemma computeMissing_loop_accounts:
  "computeMissing_loop hs sp acc = (sp', missing) \<Longrightarrow> accounts sp' = accounts sp"
  by (induction hs arbitrary: sp acc) (auto split: sum.splits)

lemma requestMetaHeaders_accounts:
  "requestMetaHeaders env header sp = Some (sp', rq, rqf) \<Longrightarrow> accounts sp' = accounts sp"
  by (auto simp: requestMetaHeaders_def requestMetaHeaders_locked_def Let_def
        computeMissingAndExistingMetaHeaders_def
        split: if_splits prod.splits option.splits
        dest!: computeMissing_loop_accounts requestFinalMissingHeaders_accounts)

lemma receivedMetaBlock_accounts:
  "receivedMetaBlock env h sp = Some (sp', sent) \<Longrightarrow> accounts sp' = accounts sp"
  by (auto simp: receivedMetaBlock_def fillMissingHdr_def Let_def
        split: option.splits if_splits prod.splits
        dest!: requestFinalMissingHeaders_accounts)

lemma waitForMetaHdrHashes_accounts:
  "waitForMetaHdrHashes env arrivals sp = Some (err, sp') \<Longrightarrow> accounts sp' = accounts sp"
proof (induction arrivals arbitrary: sp)
  case Nil
  then show ?case by simp
next
  case (Cons d arrivals)
  then show ?case
    by (auto simp: deliver_def split: option.splits prod.splits if_splits
          dest!: receivedMetaBlock_accounts)
qed

lemma ProcessBlock_prepare_accounts:
  "ProcessBlock_prepare env hh bh haveTime arrivals sp = Some r
     \<Longrightarrow> (case r of Inl (err, sp') \<Rightarrow> accounts sp' = accounts sp
                   | Inr (header, body, sp') \<Rightarrow> accounts sp' = accounts sp)"
  by (auto simp: ProcessBlock_prepare_def waitAndReset_def CreateBlockStarted_def
        split: option.splits if_splits headerHandler.splits bodyHandler.splits prod.splits
        dest!: requestMetaHeaders_accounts waitForMetaHdrHashes_accounts)

lemma RevertAccountState_journal: "acc_journalLen (accounts (RevertAccountState sp)) = 0"
  by (simp add: RevertAccountState_def)

text \<open>
  C2. When \<open>ProcessBlock\<close> returns an error that arose after the deferred revert was
  registered (at the computation of the processed metablocks, the application of the
  transactions, the check of the root hash or later), the state it leaves is the reverted
  one and the journal of the accounts is empty. An error that arose earlier leaves the
  accounts as they were. The revert itself is the base processor's, modelled from the spec.
\<close>

theorem C2_rollback_safety:
  "(ProcessBlock_prepare env hh bh haveTime arrivals sp = Some (Inr (header, body, sp1))
      \<and> ProcessBlock_check env header sp1 = None
      \<and> ProcessBlock env hh bh haveTime arrivals sp = Some (Some err, sp')
    \<longrightarrow> sp' = RevertAccountState (snd (ProcessBlock_apply env header body sp1))
        \<and> acc_journalLen (accounts sp') = 0)
   \<and> (ProcessBlock env hh bh haveTime arrivals sp = Some (Some err, sp')
    \<longrightarrow> accounts sp' = accounts sp \<or> acc_journalLen (accounts sp') = 0)"
proof (intro conjI impI)
  assume a: "ProcessBlock_prepare env hh bh haveTime arrivals sp = Some (Inr (header, body, sp1))
      \<and> ProcessBlock_check env header sp1 = None
      \<and> ProcessBlock env hh bh haveTime arrivals sp = Some (Some err, sp')"
  then have "deferRevert (ProcessBlock_apply env header body sp1) = (Some err, sp')"
    by (auto simp: ProcessBlock_def)
  then show "sp' = RevertAccountState (snd (ProcessBlock_apply env header body sp1))"
    by (auto simp: deferRevert_def split: option.splits)
  then show "acc_journalLen (accounts sp') = 0"
    by (simp add: RevertAccountState_journal)
next
  assume r: "ProcessBlock env hh bh haveTime arrivals sp = Some (Some err, sp')"
  show "accounts sp' = accounts sp \<or> acc_journalLen (accounts sp') = 0"
  proof (cases "ProcessBlock_prepare env hh bh haveTime arrivals sp")
    case None
    with r show ?thesis by (simp add: ProcessBlock_def)
  next
    case (Some p)
    note frame = ProcessBlock_prepare_accounts [OF Some]
    show ?thesis
    proof (cases p)
      case (Inl e)
      with r Some frame show ?thesis by (auto simp: ProcessBlock_def)
    next
      case (Inr hbs)
      obtain header2 body2 sp2 where hbs: "hbs = (header2, body2, sp2)" by (cases hbs)
      show ?thesis
      proof (cases "ProcessBlock_check env header2 sp2")
        case (Some e)
        with r \<open>ProcessBlock_prepare env hh bh haveTime arrivals sp = Some p\<close> Inr hbs frame
        show ?thesis by (auto simp: ProcessBlock_def)
      next
        case None
        with r \<open>ProcessBlock_prepare env hh bh haveTime arrivals sp = Some p\<close> Inr hbs
        have "deferRevert (ProcessBlock_apply env header2 body2 sp2) = (Some err, sp')"
          by (simp add: ProcessBlock_def)
        then have "sp' = RevertAccountState (snd (ProcessBlock_apply env header2 body2 sp2))"
          by (auto simp: deferRevert_def split: option.splits)
        then show ?thesis by (simp add: RevertAccountState_journal)
      qed
    qed
  qed
qed

text \<open>The example block, step by step.\<close>

lemmas tracking_defs =
  CreateBlockStarted_def deliver_def receivedMetaBlock_def
  computeMissingAndExistingMetaHeaders_def getMetaHeaderFromPool_def
  requestMetaHeaders_def requestMetaHeaders_locked_def fillMissingHdr_def
  allMissingNeededHdrsReceived_def requestFinalMissingHeaders_def
  requestFinalMissingHeaders_loop.simps getMetaHeaderFromPoolWithNonce_def

lemma ex_request:
  "requestMetaHeaders exampleEnv (exampleBlockHeader root) (CreateBlockStarted exampleValidator)
     = Some (exampleRequested, 0, 1)"
  by (simp add: tracking_defs exampleRequested_def exampleEnv_def exampleProcessor_def
        exampleValidator_def exampleBlockHeader_def exampleMeta_def)

lemma ex_wait:
  "waitAndReset exampleEnv [exampleArrival] exampleRequested = Some (None, exampleTracked)"
  by (simp add: waitAndReset_def tracking_defs exampleRequested_def exampleTracked_def
        exampleEnv_def exampleProcessor_def exampleValidator_def exampleArrival_def
        exampleMeta_def exampleNoncesPool_def)

lemma ex_correlation:
  "checkHeaderBodyCorrelation exampleMarshal exampleHasher [entryA] [mbA] = None"
  by (simp add: checkHeaderBodyCorrelation_def mbHashesFromHdr_def exampleMarshal_def
        exampleHasher_def mbA_def entryA_def)

lemma ex_prepare:
  "0 \<le> ht 0 \<Longrightarrow>
   ProcessBlock_prepare exampleEnv (ShardHeader (Some (exampleBlockHeader root)))
       (Body (Some [mbA])) (Some ht) [exampleArrival] exampleValidator
     = Some (Inr (exampleBlockHeader root, [mbA], exampleTracked))"
  using ex_request [of root] ex_wait ex_correlation
  by (simp add: ProcessBlock_prepare_def miniBlocksOf_def exampleEnv_def exampleBlockHeader_def)

lemma ex_check: "ProcessBlock_check exampleEnv (exampleBlockHeader [9]) exampleTracked = None"
  by code_simp

lemma ex_check': "ProcessBlock_check exampleEnv (exampleBlockHeader []) exampleTracked = None"
  by code_simp

lemma ex_apply:
  "ProcessBlock_apply exampleEnv (exampleBlockHeader root) [mbA] exampleTracked
     = (if root = [] then None else Some ErrRootStateDoesNotMatch,
        exampleTracked\<lparr> accounts := (accounts exampleTracked)\<lparr> acc_journalLen := 1 \<rparr> \<rparr>)"
  by (simp add: ProcessBlock_apply_def getProcessedMetaBlocksFromMiniBlocks_def
        getProcessedMetaBlocksFromMiniBlockHashes_def calculateHashMB_def
        metaMiniBlockHeadersWithDst_def isMiniBlockProcessed_def verifyStateRoot_def
        getRootHash_def Let_def exampleTracked_def exampleValidator_def exampleProcessor_def
        exampleEnv_def exampleMarshal_def exampleHasher_def mbA_def exampleMeta_def
        exampleShardInfo_def exampleBlockHeader_def)

theorem C2_rollback_safety_witness:
  "ProcessBlock_prepare exampleEnv (ShardHeader (Some (exampleBlockHeader [9])))
       (Body (Some [mbA])) (Some (\<lambda>k. 1000)) [exampleArrival] exampleValidator
     = Some (Inr (exampleBlockHeader [9], [mbA], exampleTracked))
   \<and> ProcessBlock_check exampleEnv (exampleBlockHeader [9]) exampleTracked = None
   \<and> acc_journalLen (accounts (snd (ProcessBlock_apply exampleEnv (exampleBlockHeader [9]) [mbA]
        exampleTracked))) = 1
   \<and> ProcessBlock exampleEnv (ShardHeader (Some (exampleBlockHeader [9])))
        (Body (Some [mbA])) (Some (\<lambda>k. 1000)) [exampleArrival] exampleValidator
       = Some (Some ErrRootStateDoesNotMatch,
               RevertAccountState (snd (ProcessBlock_apply exampleEnv (exampleBlockHeader [9])
                                          [mbA] exampleTracked)))
   \<and> acc_journalLen (accounts (RevertAccountState
        (snd (ProcessBlock_apply exampleEnv (exampleBlockHeader [9]) [mbA] exampleTracked)))) = 0"
  using C2_rollback_safety [of exampleEnv "ShardHeader (Some (exampleBlockHeader [9]))"
          "Body (Some [mbA])" "Some (\<lambda>k. 1000)" "[exampleArrival]" exampleValidator
          "exampleBlockHeader [9]" "[mbA]" exampleTracked ErrRootStateDoesNotMatch
          "RevertAccountState (snd (ProcessBlock_apply exampleEnv (exampleBlockHeader [9])
                                          [mbA] exampleTracked))"]
        ex_prepare [of "\<lambda>k. 1000" "[9]"] ex_check ex_apply [of "[9]"]
  by (simp add: ProcessBlock_def deferRevert_def)

subsection \<open>ProcessBlock: the check of the remaining time\<close>

text \<open>
  The request loop returns unless its bound is the largest \<open>uint64\<close>.
\<close>

lemma requestFinalMissingHeaders_loop_returns:
  assumes "currHighestMetaHdrNonce sp + word_of_int (e_metaBlockFinality env) \<noteq> - 1"
  shows "\<exists>r. requestFinalMissingHeaders_loop env i sp n = Some r"
  using assms
proof (induction "Suc (unat (currHighestMetaHdrNonce sp + word_of_int (e_metaBlockFinality env)))
                    - unat i" arbitrary: i sp n rule: less_induct)
  case less
  let ?hi = "currHighestMetaHdrNonce sp + word_of_int (e_metaBlockFinality env)"
  show ?case
  proof (cases "i \<le> ?hi")
    case False
    then show ?thesis
      by (subst requestFinalMissingHeaders_loop.simps) simp
  next
    case True
    have "i \<noteq> - 1"
      using True less.prems by (metis word_order.extremum_unique)
    then have step: "unat (i + 1) = Suc (unat i)"
      by (simp add: add.commute add_eq_0_iff unatSuc)
    have le: "unat i \<le> unat ?hi"
      using True by (simp add: word_le_nat_alt)
    have dec: "Suc (unat ?hi) - unat (i + 1) < Suc (unat ?hi) - unat i"
      using step le by simp
    show ?thesis
    proof (cases "currHighestMetaHdrNonce sp = 0")
      case z: True
      from less.hyps [of sp "i + 1" n] dec less.prems
      obtain r where "requestFinalMissingHeaders_loop env (i + 1) sp n = Some r" by blast
      with True z show ?thesis
        by (subst requestFinalMissingHeaders_loop.simps) simp
    next
      case nz: False
      show ?thesis
      proof (cases "getMetaHeaderFromPoolWithNonce env i sp")
        case (Inl err)
        from less.hyps [of sp "i + 1" "n + 1"] dec less.prems
        obtain r where "requestFinalMissingHeaders_loop env (i + 1) sp (n + 1) = Some r" by blast
        with True nz Inl show ?thesis
          by (subst requestFinalMissingHeaders_loop.simps) simp
      next
        case (Inr found)
        obtain metaBlock metaBlockHash where f: "found = (metaBlock, metaBlockHash)"
          by (cases found)
        let ?sp' = "sp\<lparr> hdrHashAndInfo :=
                        AList.update metaBlockHash
                          \<lparr> hi_usedInBlock = False, hi_hdr = Some metaBlock \<rparr>
                          (hdrHashAndInfo sp) \<rparr>"
        from less.hyps [of ?sp' "i + 1" n] dec less.prems
        obtain r where "requestFinalMissingHeaders_loop env (i + 1) ?sp' n = Some r" by auto
        with True nz Inr f show ?thesis
          by (subst requestFinalMissingHeaders_loop.simps) simp
      qed
    qed
  qed
qed

text \<open>
  C8 (as amended). A negative remainder at the check after the request for the meta
  headers is cancellation: when the block passed the steps before it, \<open>ProcessBlock\<close>
  returns \<open>ErrTimeIsOut\<close> in the state the request left, with the accounts untouched
  (nothing is applied, and \<open>ProcessBlock\<close> commits nothing in any case). The check is
  \<open>haveTime() < 0\<close>: a remainder of zero passes it.
\<close>

theorem C8_negative_time_is_out:
  assumes "ht 0 < 0"
    and "e_checkBlockValidity env (ShardHeader (Some header)) (Body b) = None"
    and "checkHeaderBodyCorrelation (e_marshalMB env) (e_hasher env)
           (h_MiniBlockHeaders header) (miniBlocksOf b) = None"
    and "e_setShardConsensusData env (h_PrevRandSeed header) (h_Round header) (h_Epoch header)
           (h_ShardId header) = None"
    and "requestMetaHeaders env header (CreateBlockStarted sp) = Some (sp1, rq, rqf)"
  shows "ProcessBlock env (ShardHeader (Some header)) (Body b) (Some ht) arrivals sp
           = Some (Some ErrTimeIsOut, sp1)
         \<and> accounts sp1 = accounts sp"
  using assms requestMetaHeaders_accounts [of env header "CreateBlockStarted sp" sp1 rq rqf]
  by (simp add: ProcessBlock_def ProcessBlock_prepare_def CreateBlockStarted_def)

theorem C8_negative_time_is_out_witness:
  "constantTime (- 1) 0 < 0
   \<and> e_checkBlockValidity exampleEnv (ShardHeader (Some (exampleBlockHeader [])))
        (Body (Some [mbA])) = None
   \<and> checkHeaderBodyCorrelation (e_marshalMB exampleEnv) (e_hasher exampleEnv)
        (h_MiniBlockHeaders (exampleBlockHeader [])) (miniBlocksOf (Some [mbA])) = None
   \<and> requestMetaHeaders exampleEnv (exampleBlockHeader []) (CreateBlockStarted exampleValidator)
        = Some (exampleRequested, 0, 1)
   \<and> ProcessBlock exampleEnv (ShardHeader (Some (exampleBlockHeader []))) (Body (Some [mbA]))
        (Some (constantTime (- 1))) [exampleArrival] exampleValidator
        = Some (Some ErrTimeIsOut, exampleRequested)
   \<and> accounts exampleRequested = accounts exampleValidator"
  using C8_negative_time_is_out [of "constantTime (- 1)" exampleEnv "exampleBlockHeader []"
          "Some [mbA]" exampleValidator exampleRequested 0 1 "[exampleArrival]"]
        ex_request [of "[]"] ex_correlation
  by (simp add: constantTime_def miniBlocksOf_def exampleEnv_def exampleBlockHeader_def)

text \<open>
  The claim as stated fails at zero: with \<open>haveTime()\<close> answering a remainder of zero,
  \<open>ProcessBlock\<close> goes on and returns without error.
\<close>

theorem C8_zero_time_counterexample:
  "constantTime 0 0 = 0
   \<and> ProcessBlock exampleEnv (ShardHeader (Some (exampleBlockHeader []))) (Body (Some [mbA]))
        (Some (constantTime 0)) [exampleArrival] exampleValidator
       = Some (None, exampleTracked\<lparr> accounts := (accounts exampleTracked)\<lparr> acc_journalLen := 1 \<rparr> \<rparr>)"
  using ex_prepare [of "constantTime 0" "[]"] ex_check' ex_apply [of "[]"]
  by (simp add: ProcessBlock_def deferRevert_def constantTime_def)

subsection \<open>CreateBlockHeader on a nil body\<close>

text \<open>
  C10. \<open>CreateBlockHeader\<close> on a body handler that is \<open>nil\<close> (or whose
  \<open>IsInterfaceNil\<close> holds) returns no error and a header with no miniblock headers, a
  transaction count of zero, the root hash of the accounts and the own shard.
\<close>

theorem C10_nil_body_header:
  assumes "bodyIsNil bodyHandler"
  shows "\<exists>header. CreateBlockHeader env bodyHandler rnd sp = Inr header
           \<and> h_MiniBlockHeaders header = [] \<and> h_TxCount header = 0
           \<and> h_MetaBlockHashes header = []
           \<and> h_RootHash header = getRootHash sp \<and> h_ShardId header = e_selfId env"
  using assms by (simp add: CreateBlockHeader_def)

theorem C10_nil_body_header_witness:
  "bodyIsNil NilBodyHandler \<and> bodyIsNil (Body None)
   \<and> CreateBlockHeader exampleEnv NilBodyHandler 12 exampleProcessor
       = Inr \<lparr> h_Nonce = 0, h_Round = 0, h_Epoch = 0, h_ShardId = 0, h_PrevHash = [],
               h_PrevRandSeed = [], h_RandSeed = [], h_RootHash = [], h_MiniBlockHeaders = [],
               h_MetaBlockHashes = [], h_TxCount = 0 \<rparr>
   \<and> CreateBlockHeader exampleEnv (Body None) 12 exampleProcessor
       = CreateBlockHeader exampleEnv NilBodyHandler 12 exampleProcessor"
  using C10_nil_body_header [of NilBodyHandler exampleEnv 12 exampleProcessor]
        C10_nil_body_header [of "Body None" exampleEnv 12 exampleProcessor]
  by (simp add: CreateBlockHeader_def bodyIsNil_def getRootHash_def exampleEnv_def
        exampleProcessor_def)

subsection \<open>Nil arguments\<close>

lemma ProcessBlock_nil_haveTime:
  "ProcessBlock env hh bh None arrivals sp = Some (Some ErrNilHaveTimeHandler, sp)"
  by (simp add: ProcessBlock_def ProcessBlock_prepare_def)

text \<open>
  C7. \<open>RestoreBlockIntoPools\<close> calls \<open>removeLastNotarized\<close> before it looks at its
  arguments: called with a \<open>nil\<close> header, or with a \<open>nil\<close> body, it returns the
  nil-argument error with the last notarized header already dropped. \<open>ProcessBlock\<close>
  with a \<open>nil\<close> \<open>haveTime\<close> returns with the state untouched.
\<close>

theorem C7_restore_nil_argument_drops_notarized:
  "notarizedHdrs exampleProcessor = [exampleMeta 8 8 [], exampleMeta 9 9 []]
   \<and> RestoreBlockIntoPools exampleEnv NilHeaderHandler (Body (Some [mbA])) exampleProcessor
       = (Some ErrNilBlockHeader, exampleProcessor\<lparr> notarizedHdrs := [exampleMeta 8 8 []] \<rparr>)
   \<and> RestoreBlockIntoPools exampleEnv (ShardHeader (Some (exampleBlockHeader []))) NilBodyHandler
        exampleProcessor
       = (Some ErrNilTxBlockBody, exampleProcessor\<lparr> notarizedHdrs := [exampleMeta 8 8 []] \<rparr>)
   \<and> ProcessBlock exampleEnv (ShardHeader (Some (exampleBlockHeader []))) (Body (Some [mbA]))
        None [] exampleProcessor
       = Some (Some ErrNilHaveTimeHandler, exampleProcessor)"
  by (simp add: RestoreBlockIntoPools_def removeLastNotarized_def headerIsNil_def bodyIsNil_def
        ProcessBlock_nil_haveTime exampleProcessor_def)


end
